theory Spec2Isabelle
  imports Main
begin

section \<open>The environment of \<open>mutex.c\<close>\<close>

text \<open>
  \<open>mutex.c\<close> wraps the POSIX mutex calls. Its functions allocate with \<open>malloc\<close>
  and release with \<open>free\<close>, call the \<open>pthread_*\<close> primitives, store each return
  code in \<open>errno\<close> and report failures with \<open>printError\<close>. The state these calls
  act on is made explicit here: the blocks of the C heap, \<open>errno\<close>, the diagnostics
  printed so far, and the errors the operating system is going to report.
\<close>

type_synonym addr = nat
type_synonym ptr = "addr option"  \<comment> \<open>\<open>None\<close> is \<open>NULL\<close>\<close>
type_synonym tid = nat  \<comment> \<open>the calling thread\<close>

datatype mtype = PTHREAD_MUTEX_DEFAULT | PTHREAD_MUTEX_ERRORCHECK

text \<open>
  A block of the heap is fresh memory, an initialised \<open>pthread_mutexattr_t\<close> with
  its type, or an initialised \<open>pthread_mutex_t\<close> with its type and its owner.
\<close>

datatype cell = Raw | Attr mtype | Mutex mtype "tid option"

text \<open>
  One call of \<open>printError(code, __FILE__, __PRETTY_FUNCTION__, message)\<close>. The file
  tag is the same in every call and is left out; \<open>r_errno\<close> is the value \<open>errno\<close>
  had when the reporter was called.
\<close>

record report =
  r_code :: int
  r_func :: string
  r_msg :: "string option"
  r_errno :: int

text \<open>
  Addresses index the list \<open>heap\<close>; a freed block leaves \<open>None\<close> behind and its
  address is not handed out again. \<open>script\<close> holds, for the coming calls of
  \<open>malloc\<close> and of the \<open>pthread_*\<close> primitives in order, the error the operating
  system reports there beyond the rules of the mutex itself (\<open>0\<close>, or no entry, for
  none): resource exhaustion, an invalid argument, interference.
\<close>

record world =
  heap :: "cell option list"
  errno :: int
  reports :: "report list"
  script :: "int list"

text \<open>
  A call returns a value and a new state, or never returns (the thread waits for a
  lock nobody releases here), or has undefined behaviour in C.
\<close>

datatype 'a outcome = Ret 'a world | Block | UB

definition obind :: "'a outcome \<Rightarrow> ('a \<Rightarrow> world \<Rightarrow> 'b outcome) \<Rightarrow> 'b outcome" where
  "obind x f = (case x of Ret v w \<Rightarrow> f v w | Block \<Rightarrow> Block | UB \<Rightarrow> UB)"

definition EPERM :: int where "EPERM = 1"
definition ENOMEM :: int where "ENOMEM = 12"
definition EBUSY :: int where "EBUSY = 16"
definition EDEADLK :: int where "EDEADLK = 35"

definition cell_at :: "world \<Rightarrow> addr \<Rightarrow> cell option" where
  "cell_at w a = (if a < length (heap w) then heap w ! a else None)"

definition store :: "addr \<Rightarrow> cell \<Rightarrow> world \<Rightarrow> world" where
  "store a c w = w\<lparr>heap := (heap w)[a := Some c]\<rparr>"

definition set_errno :: "int \<Rightarrow> world \<Rightarrow> world" where
  "set_errno rc w = w\<lparr>errno := rc\<rparr>"

definition pending :: "world \<Rightarrow> int" where
  "pending w = (case script w of [] \<Rightarrow> 0 | c # _ \<Rightarrow> c)"

definition consume :: "world \<Rightarrow> world" where
  "consume w = w\<lparr>script := drop 1 (script w)\<rparr>"

text \<open>
  \<open>reply k s\<close> is the error the operating system reports in the call after the
  next \<open>k\<close> ones; \<open>quiet n s\<close> says that it reports no error of its own in the next
  \<open>n\<close> calls.
\<close>

definition reply :: "nat \<Rightarrow> int list \<Rightarrow> int" where
  "reply k s = (if k < length s then s ! k else 0)"

definition quiet :: "nat \<Rightarrow> int list \<Rightarrow> bool" where
  "quiet n s = (\<forall>c \<in> set (take n s). c = 0)"

text \<open>
  \<open>first_fault k s\<close>: the call after the next \<open>k\<close> ones is the first in which the
  operating system reports an error of its own.
\<close>

definition first_fault :: "nat \<Rightarrow> int list \<Rightarrow> bool" where
  "first_fault k s \<longleftrightarrow> quiet k s \<and> reply k s \<noteq> 0"

subsection \<open>The diagnostic reporter\<close>

text \<open>
  Modelled from the spec: \<open>printError\<close> of \<open>logger.h\<close>, which is not among the
  sources. The spec gives its contract: it accepts an optional numeric error code, a
  source-location tag, an operation-context tag and an optional message, returns
  nothing and does not abort. It is modelled as recording the call.
\<close>

definition printError :: "int \<Rightarrow> string \<Rightarrow> string option \<Rightarrow> world \<Rightarrow> world" where
  "printError c f m w =
     w\<lparr>reports := reports w @ [\<lparr>r_code = c, r_func = f, r_msg = m, r_errno = errno w\<rparr>]\<rparr>"

subsection \<open>\<open>malloc\<close> and \<open>free\<close>\<close>

text \<open>
  \<open>malloc\<close> and \<open>free\<close> are the C library's, not the repository's. \<open>malloc\<close>
  fails when the operating system says so, returning \<open>NULL\<close> with
  \<open>errno = ENOMEM\<close>; otherwise it hands out a new block. \<open>free\<close> of an address that
  is not a live block is undefined.
\<close>

definition alloc :: "world \<Rightarrow> world" where
  "alloc w = w\<lparr>heap := heap w @ [Some Raw]\<rparr>"

definition release :: "addr \<Rightarrow> world \<Rightarrow> world" where
  "release a w = w\<lparr>heap := (heap w)[a := None]\<rparr>"

definition malloc :: "world \<Rightarrow> ptr outcome" where
  "malloc w =
     (let c = pending w; w1 = consume w in
      if c \<noteq> 0 then Ret None (set_errno ENOMEM w1)
      else Ret (Some (length (heap w1))) (alloc w1))"

definition free :: "addr \<Rightarrow> world \<Rightarrow> unit outcome" where
  "free a w =
     (case cell_at w a of
        None \<Rightarrow> UB
      | Some _ \<Rightarrow> Ret () (release a w))"

subsection \<open>The POSIX primitives\<close>

text \<open>
  The \<open>pthread_*\<close> calls are the operating system's, not the repository's. They
  are modelled after POSIX and the spec's description of the error-checking mode,
  with the calling thread as an argument. Each returns the error the operating
  system reports, if any, and changes nothing then. Otherwise: an error-checking
  mutex answers \<open>EDEADLK\<close> to a lock by its owner and \<open>EPERM\<close> to an unlock by a
  thread that does not hold it; a lock of a mutex held by another thread waits;
  \<open>trylock\<close> of a held mutex answers \<open>EBUSY\<close>; destroying a held mutex is
  undefined, as the comment in \<open>destroyMutex\<close> says. A mutex of the default type
  waits for ever when its owner locks it again. A call on memory that is not an
  initialised object of the right kind is undefined.
\<close>

definition pthread_mutexattr_init :: "addr \<Rightarrow> world \<Rightarrow> int outcome" where
  "pthread_mutexattr_init a w =
     (case cell_at w a of
        Some Raw \<Rightarrow>
          (let c = pending w; w1 = consume w in
           if c \<noteq> 0 then Ret c w1 else Ret 0 (store a (Attr PTHREAD_MUTEX_DEFAULT) w1))
      | _ \<Rightarrow> UB)"

definition pthread_mutexattr_settype :: "addr \<Rightarrow> mtype \<Rightarrow> world \<Rightarrow> int outcome" where
  "pthread_mutexattr_settype a ty w =
     (case cell_at w a of
        Some (Attr _) \<Rightarrow>
          (let c = pending w; w1 = consume w in
           if c \<noteq> 0 then Ret c w1 else Ret 0 (store a (Attr ty) w1))
      | _ \<Rightarrow> UB)"

definition pthread_mutexattr_destroy :: "addr \<Rightarrow> world \<Rightarrow> int outcome" where
  "pthread_mutexattr_destroy a w =
     (case cell_at w a of
        Some (Attr _) \<Rightarrow>
          (let c = pending w; w1 = consume w in
           if c \<noteq> 0 then Ret c w1 else Ret 0 (store a Raw w1))
      | _ \<Rightarrow> UB)"

definition pthread_mutex_init :: "addr \<Rightarrow> addr \<Rightarrow> world \<Rightarrow> int outcome" where
  "pthread_mutex_init m a w =
     (case cell_at w m of
        Some Raw \<Rightarrow>
          (case cell_at w a of
             Some (Attr ty) \<Rightarrow>
               (let c = pending w; w1 = consume w in
                if c \<noteq> 0 then Ret c w1 else Ret 0 (store m (Mutex ty None) w1))
           | _ \<Rightarrow> UB)
      | _ \<Rightarrow> UB)"

definition pthread_mutex_lock :: "tid \<Rightarrow> addr \<Rightarrow> world \<Rightarrow> int outcome" where
  "pthread_mutex_lock t m w =
     (case cell_at w m of
        Some (Mutex ty owner) \<Rightarrow>
          (let c = pending w; w1 = consume w in
           if c \<noteq> 0 then Ret c w1
           else (case owner of
                   None \<Rightarrow> Ret 0 (store m (Mutex ty (Some t)) w1)
                 | Some t' \<Rightarrow>
                     if t' = t \<and> ty = PTHREAD_MUTEX_ERRORCHECK then Ret EDEADLK w1
                     else Block))
      | _ \<Rightarrow> UB)"

definition pthread_mutex_trylock :: "tid \<Rightarrow> addr \<Rightarrow> world \<Rightarrow> int outcome" where
  "pthread_mutex_trylock t m w =
     (case cell_at w m of
        Some (Mutex ty owner) \<Rightarrow>
          (let c = pending w; w1 = consume w in
           if c \<noteq> 0 then Ret c w1
           else (case owner of
                   None \<Rightarrow> Ret 0 (store m (Mutex ty (Some t)) w1)
                 | Some _ \<Rightarrow> Ret EBUSY w1))
      | _ \<Rightarrow> UB)"

definition pthread_mutex_unlock :: "tid \<Rightarrow> addr \<Rightarrow> world \<Rightarrow> int outcome" where
  "pthread_mutex_unlock t m w =
     (case cell_at w m of
        Some (Mutex ty owner) \<Rightarrow>
          (let c = pending w; w1 = consume w in
           if c \<noteq> 0 then Ret c w1
           else if owner = Some t then Ret 0 (store m (Mutex ty None) w1)
           else if ty = PTHREAD_MUTEX_ERRORCHECK then Ret EPERM w1
           else UB)
      | _ \<Rightarrow> UB)"

definition pthread_mutex_destroy :: "addr \<Rightarrow> world \<Rightarrow> int outcome" where
  "pthread_mutex_destroy m w =
     (case cell_at w m of
        Some (Mutex ty owner) \<Rightarrow>
          (let c = pending w; w1 = consume w in
           if c \<noteq> 0 then Ret c w1
           else (case owner of
                   None \<Rightarrow> Ret 0 (store m Raw w1)
                 | Some _ \<Rightarrow> UB))
      | _ \<Rightarrow> UB)"

section \<open>The functions of \<open>mutex.c\<close>\<close>

text \<open>
  The six functions of \<open>mutex.c\<close>, statement by statement. Each takes the state and
  returns its result with the new state; \<open>lockMutex\<close>, \<open>unlockMutex\<close> and
  \<open>destroyMutex\<close> also take the calling thread, which is implicit in C. An
  assignment \<open>errno = f(...)\<close> is \<open>set_errno\<close> on the state \<open>f\<close> returns, and
  \<open>printError(errno, ...)\<close> reads \<open>errno\<close> from the state at the call.
\<close>

definition createMutexAttribute :: "world \<Rightarrow> ptr outcome" where
  "createMutexAttribute w =
     obind (malloc w) (\<lambda>attribute w1.
       case attribute of
         None \<Rightarrow>
           Ret None (printError (errno w1) ''createMutexAttribute''
                       (Some ''Could not allocate memory for attribute.'') w1)
       | Some a \<Rightarrow>
           obind (pthread_mutexattr_init a w1) (\<lambda>rc w2.
             let w2 = set_errno rc w2 in
             if 0 \<noteq> rc then
               obind (free a (printError (errno w2) ''createMutexAttribute''
                                (Some ''Could not initialize attribute.'') w2))
                 (\<lambda>_ w3. Ret None w3)
             else
               obind (pthread_mutexattr_settype a PTHREAD_MUTEX_ERRORCHECK w2) (\<lambda>rc w3.
                 let w3 = set_errno rc w3 in
                 if 0 \<noteq> rc then
                   obind (free a (printError (errno w3) ''createMutexAttribute''
                                    (Some ''Could not set attribute type.'') w3))
                     (\<lambda>_ w4. Ret None w4)
                 else Ret (Some a) w3)))"

definition destroyMutexAttribute :: "ptr \<Rightarrow> world \<Rightarrow> int outcome" where
  "destroyMutexAttribute attribute w =
     (case attribute of
        None \<Rightarrow>
          Ret 1 (printError 0 ''destroyMutexAttribute''
                   (Some ''Could not destroy attribute as it is null.'') w)
      | Some a \<Rightarrow>
          obind (pthread_mutexattr_destroy a w) (\<lambda>rc w1.
            let w1 = set_errno rc w1 in
            if 0 \<noteq> rc then
              Ret 1 (printError (errno w1) ''destroyMutexAttribute''
                       (Some ''Could not destroy attribute.'') w1)
            else obind (free a w1) (\<lambda>_ w2. Ret 0 w2)))"

definition lockMutex :: "tid \<Rightarrow> ptr \<Rightarrow> world \<Rightarrow> int outcome" where
  "lockMutex t mutex w =
     (case mutex of
        None \<Rightarrow>
          Ret 1 (printError 0 ''lockMutex'' (Some ''Could not lock mutex as it is null.'') w)
      | Some m \<Rightarrow>
          obind (pthread_mutex_lock t m w) (\<lambda>rc w1.
            let w1 = set_errno rc w1 in
            if 0 \<noteq> rc then
              Ret 1 (printError (errno w1) ''lockMutex'' (Some ''Could not lock mutex.'') w1)
            else Ret 0 w1))"

definition unlockMutex :: "tid \<Rightarrow> ptr \<Rightarrow> world \<Rightarrow> int outcome" where
  "unlockMutex t mutex w =
     (case mutex of
        None \<Rightarrow>
          Ret 1 (printError 0 ''unlockMutex''
                   (Some ''Could not unlock mutex as it is null.'') w)
      | Some m \<Rightarrow>
          obind (pthread_mutex_unlock t m w) (\<lambda>rc w1.
            let w1 = set_errno rc w1 in
            if rc \<noteq> 0 then
              Ret 1 (printError (errno w1) ''unlockMutex'' (Some ''Could not unlock mutex.'') w1)
            else Ret 0 w1))"

definition createMutex :: "world \<Rightarrow> ptr outcome" where
  "createMutex w =
     obind (createMutexAttribute w) (\<lambda>attribute w1.
       case attribute of
         None \<Rightarrow>
           Ret None (printError 0 ''createMutex'' (Some ''Could not create attribute.'') w1)
       | Some a \<Rightarrow>
           obind (malloc w1) (\<lambda>mutex w2.
             case mutex of
               None \<Rightarrow>
                 (let w3 = printError (errno w2) ''createMutex''
                             (Some ''Could not allocate memory for mutex.'') w2 in
                  obind (destroyMutexAttribute attribute w3) (\<lambda>r w4.
                    Ret None (if 0 \<noteq> r then printError 0 ''createMutex'' None w4 else w4)))
             | Some m \<Rightarrow>
                 obind (pthread_mutex_init m a w2) (\<lambda>rc w3.
                   let w3 = set_errno rc w3 in
                   if 0 \<noteq> rc then
                     (let w4 = printError (errno w3) ''createMutex''
                                 (Some ''Could not initialize mutex.'') w3 in
                      obind (destroyMutexAttribute attribute w4) (\<lambda>r w5.
                        obind (free m (if 0 \<noteq> r then printError 0 ''createMutex'' None w5
                                       else w5))
                          (\<lambda>_ w6. Ret None w6)))
                   else
                     obind (destroyMutexAttribute attribute w3) (\<lambda>r w4.
                       if 0 \<noteq> r then
                         obind (free m (printError 0 ''createMutex'' None w4))
                           (\<lambda>_ w5. Ret None w5)
                       else Ret mutex w4))))"

definition destroyMutex :: "tid \<Rightarrow> ptr \<Rightarrow> world \<Rightarrow> int outcome" where
  "destroyMutex t mutex w =
     (case mutex of
        None \<Rightarrow>
          Ret 1 (printError 0 ''destroyMutex''
                   (Some ''Could not destroy mutex as it is null.'') w)
      | Some m \<Rightarrow>
          obind (pthread_mutex_trylock t m w) (\<lambda>rc w1.
            let w1 = set_errno rc w1 in
            if 0 \<noteq> rc then
              Ret 1 (printError (errno w1) ''destroyMutex''
                       (Some ''Could not destroy mutex as it is locked.'') w1)
            else
              obind (unlockMutex t mutex w1) (\<lambda>r w2.
                if 0 \<noteq> r then Ret 1 (printError 0 ''destroyMutex'' None w2)
                else
                  obind (pthread_mutex_destroy m w2) (\<lambda>rc w3.
                    let w3 = set_errno rc w3 in
                    if 0 \<noteq> rc then
                      Ret 1 (printError (errno w3) ''destroyMutex''
                               (Some ''Could not destroy mutex.'') w3)
                    else obind (free m w3) (\<lambda>_ w4. Ret 0 w4)))))"

section \<open>The state of a lock handle\<close>

text \<open>
  A lock handle of this component is a live, initialised mutex of error-checking
  type. It is unlocked, or locked by the thread that owns it. Any other address is
  not (or no longer) a handle.
\<close>

datatype hstate = UNINITIALIZED | UNLOCKED | LOCKED tid

definition handle_state :: "world \<Rightarrow> addr \<Rightarrow> hstate" where
  "handle_state w m =
     (case cell_at w m of
        Some (Mutex PTHREAD_MUTEX_ERRORCHECK None) \<Rightarrow> UNLOCKED
      | Some (Mutex PTHREAD_MUTEX_ERRORCHECK (Some t)) \<Rightarrow> LOCKED t
      | _ \<Rightarrow> UNINITIALIZED)"

text \<open>The addresses of the live blocks, for allocation accounting.\<close>

definition live :: "world \<Rightarrow> addr list" where
  "live w = filter (\<lambda>a. heap w ! a \<noteq> None) [0 ..< length (heap w)]"

text \<open>The diagnostics printed between two states.\<close>

definition new_reports :: "world \<Rightarrow> world \<Rightarrow> report list" where
  "new_reports w w' = drop (length (reports w)) (reports w')"

subsection \<open>Some concrete states\<close>

text \<open>
  The empty state; the state \<open>createMutex\<close> leaves when nothing fails, with the handle
  at address \<open>1\<close>; that state with the handle locked by thread \<open>7\<close>; and an empty
  state in which the allocation of the mutex and the teardown of the attribute are
  going to fail.
\<close>

definition world0 :: world where
  "world0 = \<lparr>heap = [], errno = 0, reports = [], script = []\<rparr>"

definition world_unlocked :: world where
  "world_unlocked =
     \<lparr>heap = [None, Some (Mutex PTHREAD_MUTEX_ERRORCHECK None)], errno = 0, reports = [],
      script = []\<rparr>"

definition world_locked :: world where
  "world_locked =
     \<lparr>heap = [None, Some (Mutex PTHREAD_MUTEX_ERRORCHECK (Some 7))], errno = 0,
      reports = [], script = []\<rparr>"

definition world_leak :: world where
  "world_leak = \<lparr>heap = [], errno = 0, reports = [], script = [0, 0, 0, 12, 22]\<rparr>"

definition world_leaked :: world where
  "world_leaked =
     \<lparr>heap = [Some (Attr PTHREAD_MUTEX_ERRORCHECK)], errno = 22,
      reports =
        [\<lparr>r_code = 12, r_func = ''createMutex'',
          r_msg = Some ''Could not allocate memory for mutex.'', r_errno = 12\<rparr>,
         \<lparr>r_code = 22, r_func = ''destroyMutexAttribute'',
          r_msg = Some ''Could not destroy attribute.'', r_errno = 22\<rparr>,
         \<lparr>r_code = 0, r_func = ''createMutex'', r_msg = None, r_errno = 22\<rparr>],
      script = []\<rparr>"

text \<open>
  The state with the unlocked handle in which the third call of the operating system,
  \<open>pthread_mutex_destroy\<close> in \<open>destroyMutex\<close>, is going to fail.
\<close>

definition world_destroy_fails :: world where
  "world_destroy_fails =
     \<lparr>heap = [None, Some (Mutex PTHREAD_MUTEX_ERRORCHECK None)], errno = 0, reports = [],
      script = [0, 0, 16]\<rparr>"

text \<open>
  An empty state in which only the allocation of the mutex is going to fail, and the
  state \<open>createMutex\<close> leaves then.
\<close>

definition world_nomem :: world where
  "world_nomem = \<lparr>heap = [], errno = 0, reports = [], script = [0, 0, 0, 12]\<rparr>"

definition world_nomem_after :: world where
  "world_nomem_after =
     \<lparr>heap = [None], errno = 0,
      reports =
        [\<lparr>r_code = 12, r_func = ''createMutex'',
          r_msg = Some ''Could not allocate memory for mutex.'', r_errno = 12\<rparr>],
      script = []\<rparr>"

section \<open>Auxiliary lemmas\<close>

subsection \<open>Frame lemmas\<close>

lemma cell_at_store [simp]:
  "cell_at (store a c w) b = (if b = a \<and> a < length (heap w) then Some c else cell_at w b)"
  by (simp add: cell_at_def store_def)

lemma cell_at_consume [simp]: "cell_at (consume w) = cell_at w"
  by (rule ext) (simp add: cell_at_def consume_def)

lemma cell_at_set_errno [simp]: "cell_at (set_errno rc w) = cell_at w"
  by (rule ext) (simp add: cell_at_def set_errno_def)

lemma cell_at_printError [simp]: "cell_at (printError c f m w) = cell_at w"
  by (rule ext) (simp add: cell_at_def printError_def)

lemma heap_frame [simp]:
  "heap (consume w) = heap w" "heap (set_errno rc w) = heap w"
  "heap (printError c f m w) = heap w"
  by (simp_all add: consume_def set_errno_def printError_def)

lemma errno_frame [simp]:
  "errno (consume w) = errno w" "errno (set_errno rc w) = rc"
  "errno (printError c f m w) = errno w" "errno (store a x w) = errno w"
  by (simp_all add: consume_def set_errno_def printError_def store_def)

lemma reports_frame [simp]:
  "reports (consume w) = reports w" "reports (set_errno rc w) = reports w"
  "reports (store a x w) = reports w"
  "reports (printError c f m w) =
     reports w @ [\<lparr>r_code = c, r_func = f, r_msg = m, r_errno = errno w\<rparr>]"
  by (simp_all add: consume_def set_errno_def printError_def store_def)

lemma script_frame [simp]:
  "script (consume w) = drop 1 (script w)" "script (set_errno rc w) = script w"
  "script (printError c f m w) = script w" "script (store a x w) = script w"
  by (simp_all add: consume_def set_errno_def printError_def store_def)

lemma pending_frame [simp]:
  "pending (set_errno rc w) = pending w" "pending (printError c f m w) = pending w"
  "pending (store a x w) = pending w"
  by (simp_all add: pending_def)

lemma length_heap_store [simp]: "length (heap (store a c w)) = length (heap w)"
  by (simp add: store_def)

lemma handle_state_UNLOCKED:
  "handle_state w m = UNLOCKED \<longleftrightarrow> cell_at w m = Some (Mutex PTHREAD_MUTEX_ERRORCHECK None)"
  by (auto simp: handle_state_def split: option.splits cell.splits mtype.splits)

lemma handle_state_LOCKED:
  "handle_state w m = LOCKED t \<longleftrightarrow> cell_at w m = Some (Mutex PTHREAD_MUTEX_ERRORCHECK (Some t))"
  by (auto simp: handle_state_def split: option.splits cell.splits mtype.splits)

lemma handle_state_UNINITIALIZED:
  "handle_state w m \<noteq> UNINITIALIZED \<longleftrightarrow>
     (\<exists>owner. cell_at w m = Some (Mutex PTHREAD_MUTEX_ERRORCHECK owner))"
  by (auto simp: handle_state_def split: option.splits cell.splits mtype.splits)

lemma cell_at_live: "cell_at w m = Some c \<Longrightarrow> m < length (heap w)"
  by (simp add: cell_at_def split: if_splits)

subsection \<open>The primitives on a live mutex\<close>

lemma lock_Mutex:
  "cell_at w m = Some (Mutex ty owner) \<Longrightarrow>
   pthread_mutex_lock t m w =
     (if pending w \<noteq> 0 then Ret (pending w) (consume w)
      else if owner = None then Ret 0 (store m (Mutex ty (Some t)) (consume w))
      else if owner = Some t \<and> ty = PTHREAD_MUTEX_ERRORCHECK then Ret EDEADLK (consume w)
      else Block)"
  by (auto simp: pthread_mutex_lock_def Let_def split: option.splits)

lemma trylock_Mutex:
  "cell_at w m = Some (Mutex ty owner) \<Longrightarrow>
   pthread_mutex_trylock t m w =
     (if pending w \<noteq> 0 then Ret (pending w) (consume w)
      else if owner = None then Ret 0 (store m (Mutex ty (Some t)) (consume w))
      else Ret EBUSY (consume w))"
  by (auto simp: pthread_mutex_trylock_def Let_def split: option.splits)

lemma unlock_Mutex:
  "cell_at w m = Some (Mutex ty owner) \<Longrightarrow>
   pthread_mutex_unlock t m w =
     (if pending w \<noteq> 0 then Ret (pending w) (consume w)
      else if owner = Some t then Ret 0 (store m (Mutex ty None) (consume w))
      else if ty = PTHREAD_MUTEX_ERRORCHECK then Ret EPERM (consume w)
      else UB)"
  by (auto simp: pthread_mutex_unlock_def Let_def split: option.splits)

lemma destroy_Mutex:
  "cell_at w m = Some (Mutex ty owner) \<Longrightarrow>
   pthread_mutex_destroy m w =
     (if pending w \<noteq> 0 then Ret (pending w) (consume w)
      else if owner = None then Ret 0 (store m Raw (consume w))
      else UB)"
  by (auto simp: pthread_mutex_destroy_def Let_def split: option.splits)

lemma free_live: "cell_at w a = Some c \<Longrightarrow> free a w = Ret () (release a w)"
  by (simp add: free_def)

lemma malloc_eq:
  "malloc w =
     (if pending w \<noteq> 0 then Ret None (set_errno ENOMEM (consume w))
      else Ret (Some (length (heap w))) (alloc (consume w)))"
  by (simp add: malloc_def Let_def)

lemma cell_at_release [simp]:
  "cell_at (release a w) b = (if b = a then None else cell_at w b)"
  by (simp add: cell_at_def release_def)

lemma cell_at_alloc [simp]:
  "cell_at (alloc w) b = (if b = length (heap w) then Some Raw else cell_at w b)"
  by (simp add: cell_at_def alloc_def nth_append)

lemma length_heap_alloc [simp]: "length (heap (alloc w)) = Suc (length (heap w))"
  by (simp add: alloc_def)

lemma length_heap_release [simp]: "length (heap (release a w)) = length (heap w)"
  by (simp add: release_def)

lemma alloc_release_frame [simp]:
  "errno (alloc w) = errno w" "errno (release a w) = errno w"
  "reports (alloc w) = reports w" "reports (release a w) = reports w"
  "script (alloc w) = script w" "script (release a w) = script w"
  "pending (alloc w) = pending w" "pending (release a w) = pending w"
  by (simp_all add: alloc_def release_def pending_def)

lemma cell_at_fresh [simp]:
  "cell_at w (length (heap w)) = None" "cell_at w (Suc (length (heap w))) = None"
  by (simp_all add: cell_at_def)

lemma obind_Ret [simp]: "obind (Ret v w) f = f v w"
  by (simp add: obind_def)

lemma obind_Block [simp]: "obind Block f = Block"
  by (simp add: obind_def)

lemma obind_UB [simp]: "obind UB f = UB"
  by (simp add: obind_def)

lemma EBUSY_nz [simp]: "EBUSY \<noteq> 0" "EDEADLK \<noteq> 0" "EPERM \<noteq> 0" "ENOMEM \<noteq> 0"
  by (simp_all add: EBUSY_def EDEADLK_def EPERM_def ENOMEM_def)

subsection \<open>The wrappers on a live mutex\<close>

lemma lockMutex_Mutex:
  "cell_at w m = Some (Mutex ty owner) \<Longrightarrow>
   lockMutex t (Some m) w =
     (if pending w \<noteq> 0 then
        Ret 1 (printError (pending w) ''lockMutex'' (Some ''Could not lock mutex.'')
                 (set_errno (pending w) (consume w)))
      else if owner = None then Ret 0 (set_errno 0 (store m (Mutex ty (Some t)) (consume w)))
      else if owner = Some t \<and> ty = PTHREAD_MUTEX_ERRORCHECK then
        Ret 1 (printError EDEADLK ''lockMutex'' (Some ''Could not lock mutex.'')
                 (set_errno EDEADLK (consume w)))
      else Block)"
  by (simp add: lockMutex_def lock_Mutex Let_def)

lemma unlockMutex_Mutex:
  "cell_at w m = Some (Mutex ty owner) \<Longrightarrow>
   unlockMutex t (Some m) w =
     (if pending w \<noteq> 0 then
        Ret 1 (printError (pending w) ''unlockMutex'' (Some ''Could not unlock mutex.'')
                 (set_errno (pending w) (consume w)))
      else if owner = Some t then Ret 0 (set_errno 0 (store m (Mutex ty None) (consume w)))
      else if ty = PTHREAD_MUTEX_ERRORCHECK then
        Ret 1 (printError EPERM ''unlockMutex'' (Some ''Could not unlock mutex.'')
                 (set_errno EPERM (consume w)))
      else UB)"
  by (simp add: unlockMutex_def unlock_Mutex Let_def)

lemma destroyMutex_Mutex:
  "cell_at w m = Some (Mutex ty owner) \<Longrightarrow>
   destroyMutex t (Some m) w =
     (if pending w \<noteq> 0 then
        Ret 1 (printError (pending w) ''destroyMutex''
                 (Some ''Could not destroy mutex as it is locked.'')
                 (set_errno (pending w) (consume w)))
      else if owner \<noteq> None then
        Ret 1 (printError EBUSY ''destroyMutex''
                 (Some ''Could not destroy mutex as it is locked.'')
                 (set_errno EBUSY (consume w)))
      else
        (let w1 = set_errno 0 (store m (Mutex ty (Some t)) (consume w)) in
         if pending w1 \<noteq> 0 then
           Ret 1 (printError 0 ''destroyMutex'' None
                    (printError (pending w1) ''unlockMutex'' (Some ''Could not unlock mutex.'')
                       (set_errno (pending w1) (consume w1))))
         else
           (let w2 = set_errno 0 (store m (Mutex ty None) (consume w1)) in
            if pending w2 \<noteq> 0 then
              Ret 1 (printError (pending w2) ''destroyMutex''
                       (Some ''Could not destroy mutex.'')
                       (set_errno (pending w2) (consume w2)))
            else
              (let w3 = set_errno 0 (store m Raw (consume w2)) in
               Ret 0 (release m w3)))))"
proof -
  assume c: "cell_at w m = Some (Mutex ty owner)"
  then have m: "m < length (heap w)" by (rule cell_at_live)
  let ?w1 = "set_errno 0 (store m (Mutex ty (Some t)) (consume w))"
  let ?w2 = "set_errno 0 (store m (Mutex ty None) (consume ?w1))"
  let ?w3 = "set_errno 0 (store m Raw (consume ?w2))"
  have c1: "cell_at ?w1 m = Some (Mutex ty (Some t))" using m by simp
  have c2: "cell_at ?w2 m = Some (Mutex ty None)" using m by simp
  have c3: "cell_at ?w3 m = Some Raw" using m by simp
  show ?thesis
    unfolding destroyMutex_def option.case trylock_Mutex [OF c] Let_def
    by (simp add: unlockMutex_Mutex [OF c1] destroy_Mutex [OF c2] free_live [OF c3] Let_def)
qed


subsection \<open>The attribute functions\<close>

lemma attr_init_Raw:
  "cell_at w a = Some Raw \<Longrightarrow>
   pthread_mutexattr_init a w =
     (if pending w \<noteq> 0 then Ret (pending w) (consume w)
      else Ret 0 (store a (Attr PTHREAD_MUTEX_DEFAULT) (consume w)))"
  by (simp add: pthread_mutexattr_init_def Let_def)

lemma attr_settype_Attr:
  "cell_at w a = Some (Attr ty0) \<Longrightarrow>
   pthread_mutexattr_settype a ty w =
     (if pending w \<noteq> 0 then Ret (pending w) (consume w)
      else Ret 0 (store a (Attr ty) (consume w)))"
  by (simp add: pthread_mutexattr_settype_def Let_def)

lemma attr_destroy_Attr:
  "cell_at w a = Some (Attr ty) \<Longrightarrow>
   pthread_mutexattr_destroy a w =
     (if pending w \<noteq> 0 then Ret (pending w) (consume w)
      else Ret 0 (store a Raw (consume w)))"
  by (simp add: pthread_mutexattr_destroy_def Let_def)

lemma mutex_init_Raw:
  "cell_at w m = Some Raw \<Longrightarrow> cell_at w a = Some (Attr ty) \<Longrightarrow>
   pthread_mutex_init m a w =
     (if pending w \<noteq> 0 then Ret (pending w) (consume w)
      else Ret 0 (store m (Mutex ty None) (consume w)))"
  by (simp add: pthread_mutex_init_def Let_def)

lemma createMutexAttribute_eq:
  "createMutexAttribute w =
     (if pending w \<noteq> 0 then
        Ret None (printError ENOMEM ''createMutexAttribute''
                    (Some ''Could not allocate memory for attribute.'')
                    (set_errno ENOMEM (consume w)))
      else
        (let a = length (heap w); w1 = alloc (consume w) in
         if pending w1 \<noteq> 0 then
           Ret None (release a (printError (pending w1) ''createMutexAttribute''
                                  (Some ''Could not initialize attribute.'')
                                  (set_errno (pending w1) (consume w1))))
         else
           (let w2 = set_errno 0 (store a (Attr PTHREAD_MUTEX_DEFAULT) (consume w1)) in
            if pending w2 \<noteq> 0 then
              Ret None (release a (printError (pending w2) ''createMutexAttribute''
                                     (Some ''Could not set attribute type.'')
                                     (set_errno (pending w2) (consume w2))))
            else
              Ret (Some a) (set_errno 0 (store a (Attr PTHREAD_MUTEX_ERRORCHECK)
                                           (consume w2))))))"
proof -
  let ?a = "length (heap w)"
  let ?w1 = "alloc (consume w)"
  let ?w2 = "set_errno 0 (store ?a (Attr PTHREAD_MUTEX_DEFAULT) (consume ?w1))"
  have c1: "cell_at ?w1 ?a = Some Raw" by simp
  have f1: "cell_at (printError c f m (set_errno rc (consume ?w1))) ?a = Some Raw" for c f m rc
    by simp
  have c2: "cell_at ?w2 ?a = Some (Attr PTHREAD_MUTEX_DEFAULT)" by simp
  have f2: "cell_at (printError c f m (set_errno rc (consume ?w2))) ?a
              = Some (Attr PTHREAD_MUTEX_DEFAULT)" for c f m rc
    by simp
  show ?thesis
    unfolding createMutexAttribute_def malloc_eq
    by (simp add: attr_init_Raw [OF c1] attr_settype_Attr [OF c2]
        free_live [OF f1] free_live [OF f2] Let_def)
qed

lemma destroyMutexAttribute_Attr:
  "cell_at w a = Some (Attr ty) \<Longrightarrow>
   destroyMutexAttribute (Some a) w =
     (if pending w \<noteq> 0 then
        Ret 1 (printError (pending w) ''destroyMutexAttribute''
                 (Some ''Could not destroy attribute.'') (set_errno (pending w) (consume w)))
      else Ret 0 (release a (set_errno 0 (store a Raw (consume w)))))"
proof -
  assume c: "cell_at w a = Some (Attr ty)"
  then have a: "a < length (heap w)" by (rule cell_at_live)
  have c1: "cell_at (set_errno 0 (store a Raw (consume w))) a = Some Raw" using a by simp
  show ?thesis
    unfolding destroyMutexAttribute_def option.case attr_destroy_Attr [OF c]
    by (simp add: free_live [OF c1] Let_def)
qed


subsection \<open>\<open>createMutex\<close> after the attribute\<close>

lemma createMutex_no_attribute:
  "createMutexAttribute w = Ret None w1 \<Longrightarrow>
   createMutex w =
     Ret None (printError 0 ''createMutex'' (Some ''Could not create attribute.'') w1)"
  by (simp add: createMutex_def)

lemma createMutex_with_attribute:
  assumes attr: "createMutexAttribute w = Ret (Some a) w1"
    and c: "cell_at w1 a = Some (Attr ty)"
  shows "createMutex w =
     (if pending w1 \<noteq> 0 then
        (let w3 = printError ENOMEM ''createMutex''
                    (Some ''Could not allocate memory for mutex.'')
                    (set_errno ENOMEM (consume w1)) in
         if pending w3 \<noteq> 0 then
           Ret None (printError 0 ''createMutex'' None
                       (printError (pending w3) ''destroyMutexAttribute''
                          (Some ''Could not destroy attribute.'')
                          (set_errno (pending w3) (consume w3))))
         else Ret None (release a (set_errno 0 (store a Raw (consume w3)))))
      else
        (let m = length (heap w1); w2 = alloc (consume w1) in
         if pending w2 \<noteq> 0 then
           (let w4 = printError (pending w2) ''createMutex''
                       (Some ''Could not initialize mutex.'')
                       (set_errno (pending w2) (consume w2)) in
            if pending w4 \<noteq> 0 then
              Ret None (release m (printError 0 ''createMutex'' None
                          (printError (pending w4) ''destroyMutexAttribute''
                             (Some ''Could not destroy attribute.'')
                             (set_errno (pending w4) (consume w4)))))
            else Ret None (release m (release a (set_errno 0 (store a Raw (consume w4))))))
         else
           (let w3 = set_errno 0 (store m (Mutex ty None) (consume w2)) in
            if pending w3 \<noteq> 0 then
              Ret None (release m (printError 0 ''createMutex'' None
                          (printError (pending w3) ''destroyMutexAttribute''
                             (Some ''Could not destroy attribute.'')
                             (set_errno (pending w3) (consume w3)))))
            else Ret (Some m) (release a (set_errno 0 (store a Raw (consume w3)))))))"
proof -
  from c have a: "a < length (heap w1)" by (rule cell_at_live)
  let ?m = "length (heap w1)"
  let ?w2 = "alloc (consume w1)"
  let ?w3 = "set_errno 0 (store ?m (Mutex ty None) (consume ?w2))"
  have am: "a \<noteq> ?m" using a by simp
  have cf: "cell_at (printError c0 f0 m0 (set_errno rc (consume w1))) a = Some (Attr ty)"
    for c0 f0 m0 rc using c by simp
  have c2m: "cell_at ?w2 ?m = Some Raw" by simp
  have c2a: "cell_at ?w2 a = Some (Attr ty)" using c am by simp
  have c4a: "cell_at (printError c0 f0 m0 (set_errno rc (consume ?w2))) a = Some (Attr ty)"
    for c0 f0 m0 rc using c am by simp
  have c3a: "cell_at ?w3 a = Some (Attr ty)" using c am by simp
  have fm1: "cell_at (printError c0 f0 m0 (printError c1 f1 m1 (set_errno rc (consume
               (printError c2 f2 m2 (set_errno rc' (consume ?w2))))))) ?m = Some Raw"
    for c0 f0 m0 c1 f1 m1 c2 f2 m2 rc rc' by simp
  have fm2: "cell_at (release a (set_errno 0 (store a Raw (consume
               (printError c2 f2 m2 (set_errno rc' (consume ?w2))))))) ?m = Some Raw"
    for c2 f2 m2 rc' using am by simp
  have fm3: "cell_at (printError c0 f0 m0 (printError c1 f1 m1 (set_errno rc (consume ?w3))))
               ?m = Some (Mutex ty None)"
    for c0 f0 m0 c1 f1 m1 rc by simp
  show ?thesis
    unfolding createMutex_def attr obind_Ret option.case malloc_eq
    by (simp add: destroyMutexAttribute_Attr [OF cf] destroyMutexAttribute_Attr [OF c4a]
        destroyMutexAttribute_Attr [OF c3a] mutex_init_Raw [OF c2m c2a]
        free_live [OF fm1] free_live [OF fm2] free_live [OF fm3] Let_def)
qed


subsection \<open>Reading the script\<close>

lemma quiet_0 [simp]: "quiet 0 s"
  by (simp add: quiet_def)

lemma pending_reply: "pending w = reply 0 (script w)"
  by (cases "script w") (simp_all add: pending_def reply_def)

lemma reply_drop [simp]: "reply k (drop j s) = reply (k + j) s"
  by (auto simp: reply_def add.commute)

lemma quiet_iff: "quiet n s \<longleftrightarrow> (\<forall>k<n. reply k s = 0)"
proof
  assume q: "quiet n s"
  show "\<forall>k<n. reply k s = 0"
  proof (intro allI impI)
    fix k assume "k < n"
    show "reply k s = 0"
    proof (cases "k < length s")
      case True
      with \<open>k < n\<close> have "s ! k \<in> set (take n s)"
        by (metis length_take min_less_iff_conj nth_mem nth_take)
      with q True show ?thesis by (simp add: quiet_def reply_def)
    next
      case False
      then show ?thesis by (simp add: reply_def)
    qed
  qed
next
  assume r: "\<forall>k<n. reply k s = 0"
  show "quiet n s"
    unfolding quiet_def
  proof
    fix c assume "c \<in> set (take n s)"
    then obtain i where i: "i < length (take n s)" "take n s ! i = c"
      by (auto simp: in_set_conv_nth)
    then have "i < n" "i < length s" "s ! i = c" by simp_all
    with r show "c = 0" by (auto simp: reply_def)
  qed
qed

lemma quiet_Suc_iff: "quiet (Suc n) s \<longleftrightarrow> quiet n s \<and> reply n s = 0"
  by (auto simp: quiet_iff less_Suc_eq)

lemmas quiet_unfold = eval_nat_numeral quiet_Suc_iff pending_reply

subsection \<open>What \<open>createMutexAttribute\<close> returns\<close>

lemma createMutexAttribute_total: "\<exists>p w1. createMutexAttribute w = Ret p w1"
  by (simp add: createMutexAttribute_eq Let_def)

lemma createMutexAttribute_Some:
  assumes "createMutexAttribute w = Ret (Some a) w1"
  shows "a = length (heap w)" and "length (heap w1) = Suc (length (heap w))"
    and "cell_at w1 = (cell_at w)(a \<mapsto> Attr PTHREAD_MUTEX_ERRORCHECK)"
    and "reports w1 = reports w" and "script w1 = drop 3 (script w)"
    and "quiet 3 (script w)" and "errno w1 = 0"
  using assms
  by (auto simp: createMutexAttribute_eq Let_def fun_eq_iff quiet_unfold
      split: if_splits)

lemma createMutexAttribute_None:
  assumes "createMutexAttribute w = Ret None w1"
  shows "cell_at w1 = cell_at w" and "\<exists>r. reports w1 = reports w @ [r] \<and> r_code r = r_errno r"
    and "\<not> quiet 3 (script w)"
  using assms
  by (auto simp: createMutexAttribute_eq Let_def fun_eq_iff quiet_unfold
      split: if_splits)


subsection \<open>What \<open>createMutex\<close> returns\<close>

lemma createMutex_total: "\<exists>p w'. createMutex w = Ret p w'"
proof -
  obtain p w1 where attr: "createMutexAttribute w = Ret p w1"
    using createMutexAttribute_total by blast
  show ?thesis
  proof (cases p)
    case None
    with attr show ?thesis by (simp add: createMutex_no_attribute)
  next
    case (Some a)
    with attr have "cell_at w1 a = Some (Attr PTHREAD_MUTEX_ERRORCHECK)"
      by (simp add: createMutexAttribute_Some(3))
    with attr Some show ?thesis
      by (simp add: createMutex_with_attribute Let_def)
  qed
qed

lemma createMutex_Some:
  assumes "createMutex w = Ret (Some m) w'"
  shows "m = Suc (length (heap w))"
    and "cell_at w' = (cell_at w)(m \<mapsto> Mutex PTHREAD_MUTEX_ERRORCHECK None)"
    and "reports w' = reports w" and "errno w' = 0"
    and "quiet 6 (script w)" and "script w' = drop 6 (script w)"
proof -
  obtain p w1 where attr: "createMutexAttribute w = Ret p w1"
    using createMutexAttribute_total by blast
  from attr assms obtain a where p: "p = Some a"
    by (cases p) (simp_all add: createMutex_no_attribute)
  note A = createMutexAttribute_Some [OF attr [unfolded p]]
  have c: "cell_at w1 a = Some (Attr PTHREAD_MUTEX_ERRORCHECK)"
    by (simp add: A(3))
  note E = createMutex_with_attribute [OF attr [unfolded p] c]
  have q3: "reply 0 (script w) = 0" "reply (Suc 0) (script w) = 0"
    "reply (Suc (Suc 0)) (script w) = 0"
    using A(6) by (simp_all add: quiet_unfold)
  show "m = Suc (length (heap w))"
    using assms unfolding E by (simp add: Let_def A split: if_splits)
  show "cell_at w' = (cell_at w)(m \<mapsto> Mutex PTHREAD_MUTEX_ERRORCHECK None)"
    using assms unfolding E by (auto simp: Let_def A fun_eq_iff split: if_splits)
  show "reports w' = reports w"
    using assms unfolding E by (auto simp: Let_def A split: if_splits)
  show "errno w' = 0"
    using assms unfolding E by (auto simp: Let_def A split: if_splits)
  show "quiet 6 (script w)"
    using assms q3 unfolding E by (auto simp: Let_def A quiet_unfold split: if_splits)
  show "script w' = drop 6 (script w)"
    using assms unfolding E by (auto simp: Let_def A quiet_unfold split: if_splits)
qed

lemma createMutex_quiet:
  assumes "quiet 6 (script w)"
  shows "\<exists>w'. createMutex w = Ret (Some (Suc (length (heap w)))) w'"
proof -
  from assms have q: "reply 0 (script w) = 0" "reply (Suc 0) (script w) = 0"
    "reply (Suc (Suc 0)) (script w) = 0" "reply (Suc (Suc (Suc 0))) (script w) = 0"
    "reply (Suc (Suc (Suc (Suc 0)))) (script w) = 0"
    "reply (Suc (Suc (Suc (Suc (Suc 0))))) (script w) = 0"
    by (simp_all add: quiet_unfold)
  obtain p w1 where attr: "createMutexAttribute w = Ret p w1"
    using createMutexAttribute_total by blast
  have "quiet 3 (script w)" using q by (simp add: quiet_unfold)
  with attr obtain a where p: "p = Some a"
    by (cases p) (auto dest: createMutexAttribute_None(3))
  note A = createMutexAttribute_Some [OF attr [unfolded p]]
  have c: "cell_at w1 a = Some (Attr PTHREAD_MUTEX_ERRORCHECK)"
    by (simp add: A(3))
  show ?thesis
    unfolding createMutex_with_attribute [OF attr [unfolded p] c]
    using q by (simp add: Let_def A quiet_unfold)
qed

lemma createMutex_None:
  assumes "createMutex w = Ret None w'"
  shows "\<not> quiet 6 (script w)"
    and "\<exists>r rs. reports w' = reports w @ r # rs"
    and "cell_at w' b = cell_at w b \<or>
         (b = length (heap w) \<and> cell_at w b = None \<and>
          cell_at w' b = Some (Attr PTHREAD_MUTEX_ERRORCHECK) \<and>
          (\<exists>r \<in> set (new_reports w w'). r_func r = ''destroyMutexAttribute''))"
    and "(\<forall>r \<in> set (new_reports w w'). r_func r \<noteq> ''destroyMutexAttribute'') \<Longrightarrow>
         cell_at w' = cell_at w"
proof -
  obtain p w1 where attr: "createMutexAttribute w = Ret p w1"
    using createMutexAttribute_total by blast
  have "\<not> quiet 6 (script w) \<and> (\<exists>r rs. reports w' = reports w @ r # rs) \<and>
        (\<forall>b. cell_at w' b = cell_at w b \<or>
         (b = length (heap w) \<and> cell_at w b = None \<and>
          cell_at w' b = Some (Attr PTHREAD_MUTEX_ERRORCHECK) \<and>
          (\<exists>r \<in> set (new_reports w w'). r_func r = ''destroyMutexAttribute'')))"
  proof (cases p)
    case None
    note N = createMutexAttribute_None [OF attr [unfolded None]]
    from N(2) obtain r where r: "reports w1 = reports w @ [r]" by blast
    from assms have w': "w' = printError 0 ''createMutex'' (Some ''Could not create attribute.'') w1"
      by (simp add: createMutex_no_attribute [OF attr [unfolded None]])
    from N(3) have "\<not> quiet 6 (script w)" by (auto simp: quiet_unfold)
    then show ?thesis by (simp add: w' N(1) r)
  next
    case (Some a)
    note A = createMutexAttribute_Some [OF attr [unfolded Some]]
    have c: "cell_at w1 a = Some (Attr PTHREAD_MUTEX_ERRORCHECK)"
      by (simp add: A(3))
    note E = createMutex_with_attribute [OF attr [unfolded Some] c]
    have 1: "\<not> quiet 6 (script w)"
      using assms unfolding E by (auto simp: Let_def A quiet_unfold split: if_splits)
    have 2: "\<exists>r rs. reports w' = reports w @ r # rs"
      using assms unfolding E by (auto simp: Let_def A split: if_splits)
    have 3: "cell_at w' b = cell_at w b \<or>
         (b = length (heap w) \<and> cell_at w b = None \<and>
          cell_at w' b = Some (Attr PTHREAD_MUTEX_ERRORCHECK) \<and>
          (\<exists>r \<in> set (new_reports w w'). r_func r = ''destroyMutexAttribute''))" for b
      using assms unfolding E by (auto simp: Let_def A new_reports_def split: if_splits)
    from 1 2 3 show ?thesis by blast
  qed
  then have main: "\<not> quiet 6 (script w)" "\<exists>r rs. reports w' = reports w @ r # rs"
    "\<And>b. cell_at w' b = cell_at w b \<or>
         (b = length (heap w) \<and> cell_at w b = None \<and>
          cell_at w' b = Some (Attr PTHREAD_MUTEX_ERRORCHECK) \<and>
          (\<exists>r \<in> set (new_reports w w'). r_func r = ''destroyMutexAttribute''))"
    by blast+
  show "\<not> quiet 6 (script w)" by (rule main(1))
  show "\<exists>r rs. reports w' = reports w @ r # rs" by (rule main(2))
  show "cell_at w' b = cell_at w b \<or>
         (b = length (heap w) \<and> cell_at w b = None \<and>
          cell_at w' b = Some (Attr PTHREAD_MUTEX_ERRORCHECK) \<and>
          (\<exists>r \<in> set (new_reports w w'). r_func r = ''destroyMutexAttribute''))"
    by (rule main(3))
  show "cell_at w' = cell_at w"
    if "\<forall>r \<in> set (new_reports w w'). r_func r \<noteq> ''destroyMutexAttribute''"
  proof
    fix b show "cell_at w' b = cell_at w b" using main(3) [of b] that by blast
  qed
qed


subsection \<open>The transitions of a handle\<close>

lemma handle_state_store [simp]:
  "m < length (heap w) \<Longrightarrow>
   handle_state (store m (Mutex PTHREAD_MUTEX_ERRORCHECK owner) w) m =
     (case owner of None \<Rightarrow> UNLOCKED | Some t \<Rightarrow> LOCKED t)"
  by (simp add: handle_state_def)

lemma handle_state_frame [simp]:
  "handle_state (consume w) = handle_state w"
  "handle_state (set_errno rc w) = handle_state w"
  "handle_state (printError c f x w) = handle_state w"
  by (simp_all add: handle_state_def fun_eq_iff)

lemma handle_state_gone [simp]: "handle_state (release m w) m = UNINITIALIZED"
  by (simp add: handle_state_def)

lemma handle_cell:
  "handle_state w m \<noteq> UNINITIALIZED \<Longrightarrow>
   \<exists>owner. cell_at w m = Some (Mutex PTHREAD_MUTEX_ERRORCHECK owner) \<and>
     handle_state w m = (case owner of None \<Rightarrow> UNLOCKED | Some t \<Rightarrow> LOCKED t)"
  by (auto simp: handle_state_def split: option.splits cell.splits mtype.splits)

lemma lock_transition:
  assumes "handle_state w m = UNLOCKED" "quiet 1 (script w)"
  shows "\<exists>w'. lockMutex t (Some m) w = Ret 0 w' \<and> handle_state w' m = LOCKED t"
proof -
  from assms(1) have c: "cell_at w m = Some (Mutex PTHREAD_MUTEX_ERRORCHECK None)"
    by (simp add: handle_state_UNLOCKED)
  from c have "m < length (heap w)" by (rule cell_at_live)
  with assms(2) show ?thesis
    by (simp add: lockMutex_Mutex [OF c] quiet_unfold)
qed

lemma unlock_transition:
  assumes "handle_state w m = LOCKED t" "quiet 1 (script w)"
  shows "\<exists>w'. unlockMutex t (Some m) w = Ret 0 w' \<and> handle_state w' m = UNLOCKED"
proof -
  from assms(1) have c: "cell_at w m = Some (Mutex PTHREAD_MUTEX_ERRORCHECK (Some t))"
    by (simp add: handle_state_LOCKED)
  from c have "m < length (heap w)" by (rule cell_at_live)
  with assms(2) show ?thesis
    by (simp add: unlockMutex_Mutex [OF c] quiet_unfold)
qed

lemma destroy_transition:
  assumes "handle_state w m = UNLOCKED" "quiet 3 (script w)"
  shows "\<exists>w'. destroyMutex t (Some m) w = Ret 0 w' \<and> handle_state w' m = UNINITIALIZED"
proof -
  from assms(1) have c: "cell_at w m = Some (Mutex PTHREAD_MUTEX_ERRORCHECK None)"
    by (simp add: handle_state_UNLOCKED)
  from assms(2) show ?thesis
    by (simp add: destroyMutex_Mutex [OF c] quiet_unfold Let_def)
qed

lemma destroy_refused:
  assumes "handle_state w m = LOCKED t'"
  shows "\<exists>w'. destroyMutex t (Some m) w = Ret 1 w' \<and> handle_state w' m = LOCKED t' \<and>
           heap w' = heap w \<and> script w' = drop 1 (script w) \<and> errno w' \<noteq> 0 \<and>
           (\<exists>v. pthread_mutex_trylock t m w = Ret (errno w') v) \<and>
           (quiet 1 (script w) \<longrightarrow> errno w' = EBUSY) \<and>
           new_reports w w' =
             [\<lparr>r_code = errno w', r_func = ''destroyMutex'',
               r_msg = Some ''Could not destroy mutex as it is locked.'',
               r_errno = errno w'\<rparr>]"
proof -
  from assms have c: "cell_at w m = Some (Mutex PTHREAD_MUTEX_ERRORCHECK (Some t'))"
    by (simp add: handle_state_LOCKED)
  show ?thesis
    using assms
    by (simp add: destroyMutex_Mutex [OF c] trylock_Mutex [OF c] quiet_unfold new_reports_def)
qed

lemma lock_success_only:
  assumes "lockMutex t (Some m) w = Ret 0 w'" "handle_state w m \<noteq> UNINITIALIZED"
  shows "handle_state w m = UNLOCKED \<and> handle_state w' m = LOCKED t"
proof -
  from handle_cell [OF assms(2)] obtain owner where
    c: "cell_at w m = Some (Mutex PTHREAD_MUTEX_ERRORCHECK owner)" by blast
  from c have "m < length (heap w)" by (rule cell_at_live)
  with assms(1) c show ?thesis
    by (auto simp: lockMutex_Mutex [OF c] handle_state_UNLOCKED split: if_splits)
qed

lemma unlock_success_only:
  assumes "unlockMutex t (Some m) w = Ret 0 w'" "handle_state w m \<noteq> UNINITIALIZED"
  shows "handle_state w m = LOCKED t \<and> handle_state w' m = UNLOCKED"
proof -
  from handle_cell [OF assms(2)] obtain owner where
    c: "cell_at w m = Some (Mutex PTHREAD_MUTEX_ERRORCHECK owner)" by blast
  from c have "m < length (heap w)" by (rule cell_at_live)
  with assms(1) c show ?thesis
    by (auto simp: unlockMutex_Mutex [OF c] handle_state_LOCKED split: if_splits)
qed

lemma destroy_success_only:
  assumes "destroyMutex t (Some m) w = Ret 0 w'" "handle_state w m \<noteq> UNINITIALIZED"
  shows "handle_state w m = UNLOCKED \<and> handle_state w' m = UNINITIALIZED \<and>
         quiet 3 (script w)"
proof -
  from handle_cell [OF assms(2)] obtain owner where
    c: "cell_at w m = Some (Mutex PTHREAD_MUTEX_ERRORCHECK owner)" by blast
  from assms(1) c show ?thesis
    by (auto simp: destroyMutex_Mutex [OF c] handle_state_UNLOCKED Let_def quiet_unfold
        split: if_splits)
qed

lemma store_same_cell:
  "cell_at w m = Some c \<Longrightarrow> heap (store m c w) = heap w"
  by (simp add: store_def cell_at_def split: if_splits) (metis list_update_id)

lemma heap_store_store [simp]: "heap (store m c (store m c' w)) = heap (store m c w)"
  by (simp add: store_def)

lemma heap_store_frame [simp]:
  "heap (store m c (consume w)) = heap (store m c w)"
  "heap (store m c (set_errno rc w)) = heap (store m c w)"
  by (simp_all add: store_def)

lemma first_fault_2:
  "first_fault 2 s \<longleftrightarrow> reply 0 s = 0 \<and> reply (Suc 0) s = 0 \<and> reply (Suc (Suc 0)) s \<noteq> 0"
  by (auto simp: first_fault_def quiet_unfold)

lemma destroyMutex_Ret_cell:
  assumes "destroyMutex t (Some m) w = Ret r w'"
  shows "\<exists>ty owner. cell_at w m = Some (Mutex ty owner)"
  using assms
  by (auto simp: destroyMutex_def pthread_mutex_trylock_def
      split: option.splits cell.splits)

lemma destroyMutex_result:
  assumes d: "destroyMutex t (Some m) w = Ret r w'"
    and c: "cell_at w m = Some (Mutex ty owner)"
  shows "r = 0 \<or> r = 1"
    and "r = 0 \<longleftrightarrow> owner = None \<and> quiet 3 (script w)"
    and "cell_at w' m = None \<longleftrightarrow> r = 0"
    and "r = 1 \<Longrightarrow> \<exists>owner'. cell_at w' m = Some (Mutex ty owner')"
    and "r = 1 \<Longrightarrow> a \<noteq> m \<Longrightarrow> cell_at w' a = cell_at w a"
    and "r = 1 \<Longrightarrow> \<exists>x xs. reports w' = reports w @ x # xs"
proof -
  from c have m: "m < length (heap w)" by (rule cell_at_live)
  note E = d [unfolded destroyMutex_Mutex [OF c] Let_def]
  show "r = 0 \<or> r = 1" using E by (auto split: if_splits)
  show "r = 0 \<longleftrightarrow> owner = None \<and> quiet 3 (script w)"
    using E by (auto simp: quiet_unfold split: if_splits)
  show "cell_at w' m = None \<longleftrightarrow> r = 0"
    using E c m by (auto split: if_splits)
  show "\<exists>owner'. cell_at w' m = Some (Mutex ty owner')" if "r = 1"
    using E c m that by (auto split: if_splits)
  show "cell_at w' a = cell_at w a" if "r = 1" "a \<noteq> m"
    using E that by (auto split: if_splits)
  show "\<exists>x xs. reports w' = reports w @ x # xs" if "r = 1"
    using E that by (auto split: if_splits)
qed

subsection \<open>What the primitives leave alone\<close>

lemma lock_frame:
  "pthread_mutex_lock t m w = Ret rc w1 \<Longrightarrow> reports w1 = reports w \<and> errno w1 = errno w"
  by (auto simp: pthread_mutex_lock_def Let_def split: option.splits cell.splits if_splits)

lemma trylock_frame:
  "pthread_mutex_trylock t m w = Ret rc w1 \<Longrightarrow> reports w1 = reports w \<and> errno w1 = errno w"
  by (auto simp: pthread_mutex_trylock_def Let_def split: option.splits cell.splits if_splits)

lemma unlock_frame:
  "pthread_mutex_unlock t m w = Ret rc w1 \<Longrightarrow> reports w1 = reports w \<and> errno w1 = errno w"
  by (auto simp: pthread_mutex_unlock_def Let_def split: option.splits cell.splits if_splits)

lemma destroy_frame:
  "pthread_mutex_destroy m w = Ret rc w1 \<Longrightarrow> reports w1 = reports w \<and> errno w1 = errno w"
  by (auto simp: pthread_mutex_destroy_def Let_def split: option.splits cell.splits if_splits)

lemma attr_destroy_frame:
  "pthread_mutexattr_destroy a w = Ret rc w1 \<Longrightarrow>
   reports w1 = reports w \<and> errno w1 = errno w"
  by (auto simp: pthread_mutexattr_destroy_def Let_def
      split: option.splits cell.splits if_splits)

lemma new_reports_append [simp]: "reports w' = reports w @ rs \<Longrightarrow> new_reports w w' = rs"
  by (simp add: new_reports_def)

subsection \<open>Failures of the wrappers\<close>

lemma lockMutex_failure:
  assumes "lockMutex t h w = Ret r w'" "r \<noteq> 0"
  shows "r = 1 \<and> (\<exists>x xs. reports w' = reports w @ x # xs)"
proof (cases h)
  case None
  with assms show ?thesis by (auto simp: lockMutex_def)
next
  case (Some m)
  with assms show ?thesis
    by (auto simp: lockMutex_def obind_def Let_def dest: lock_frame
        split: outcome.splits if_splits)
qed

lemma unlockMutex_failure:
  assumes "unlockMutex t h w = Ret r w'" "r \<noteq> 0"
  shows "r = 1 \<and> (\<exists>x xs. reports w' = reports w @ x # xs)"
proof (cases h)
  case None
  with assms show ?thesis by (auto simp: unlockMutex_def)
next
  case (Some m)
  with assms show ?thesis
    by (auto simp: unlockMutex_def obind_def Let_def dest: unlock_frame
        split: outcome.splits if_splits)
qed

lemma destroyMutex_failure:
  assumes "destroyMutex t h w = Ret r w'" "r \<noteq> 0"
  shows "r = 1 \<and> (\<exists>x xs. reports w' = reports w @ x # xs)"
proof (cases h)
  case None
  with assms show ?thesis by (auto simp: destroyMutex_def)
next
  case (Some m)
  with assms have d: "destroyMutex t (Some m) w = Ret r w'" by simp
  from destroyMutex_Ret_cell [OF d] obtain ty owner where
    c: "cell_at w m = Some (Mutex ty owner)" by blast
  note R = destroyMutex_result [OF d c]
  from R(1) assms(2) have "r = 1" by simp
  with R(6) show ?thesis by simp
qed

lemma live_handle_no_crash:
  assumes "handle_state w m \<noteq> UNINITIALIZED"
  shows "lockMutex t (Some m) w \<noteq> UB" and "\<exists>r w'. unlockMutex t (Some m) w = Ret r w'"
    and "\<exists>r w'. destroyMutex t (Some m) w = Ret r w'"
proof -
  from handle_cell [OF assms] obtain owner where
    c: "cell_at w m = Some (Mutex PTHREAD_MUTEX_ERRORCHECK owner)" by blast
  show "lockMutex t (Some m) w \<noteq> UB" by (simp add: lockMutex_Mutex [OF c])
  show "\<exists>r w'. unlockMutex t (Some m) w = Ret r w'" by (simp add: unlockMutex_Mutex [OF c])
  show "\<exists>r w'. destroyMutex t (Some m) w = Ret r w'"
    by (simp add: destroyMutex_Mutex [OF c] Let_def)
qed

lemma first_fault_unfold:
  "first_fault 0 s \<longleftrightarrow> reply 0 s \<noteq> 0"
  "first_fault (Suc k) s \<longleftrightarrow> quiet (Suc k) s \<and> reply (Suc k) s \<noteq> 0"
  by (simp_all add: first_fault_def)

lemma createMutexAttribute_None_first:
  assumes "createMutexAttribute w = Ret None w1"
  shows "\<exists>k<3. first_fault k (script w) \<and>
           (\<exists>f x. reports w1 = reports w @
              [\<lparr>r_code = (if k = 0 then ENOMEM else reply k (script w)), r_func = f,
                r_msg = x, r_errno = (if k = 0 then ENOMEM else reply k (script w))\<rparr>])"
proof -
  note E = assms [unfolded createMutexAttribute_eq Let_def]
  consider (a) "reply 0 (script w) \<noteq> 0"
    | (b) "reply 0 (script w) = 0" "reply (Suc 0) (script w) \<noteq> 0"
    | (c) "reply 0 (script w) = 0" "reply (Suc 0) (script w) = 0"
      "reply (Suc (Suc 0)) (script w) \<noteq> 0"
    | (d) "reply 0 (script w) = 0" "reply (Suc 0) (script w) = 0"
      "reply (Suc (Suc 0)) (script w) = 0"
    by blast
  then show ?thesis
  proof cases
    case a
    with E have "first_fault 0 (script w) \<and>
           (\<exists>f x. reports w1 = reports w @
              [\<lparr>r_code = ENOMEM, r_func = f, r_msg = x, r_errno = ENOMEM\<rparr>])"
      by (auto simp: pending_reply first_fault_unfold)
    then show ?thesis by (intro exI [of _ 0]) simp
  next
    case b
    with E have "first_fault (Suc 0) (script w) \<and>
           (\<exists>f x. reports w1 = reports w @
              [\<lparr>r_code = reply (Suc 0) (script w), r_func = f, r_msg = x,
                r_errno = reply (Suc 0) (script w)\<rparr>])"
      by (auto simp: first_fault_unfold quiet_unfold)
    then show ?thesis by (intro exI [of _ "Suc 0"]) simp
  next
    case c
    with E have "first_fault (Suc (Suc 0)) (script w) \<and>
           (\<exists>f x. reports w1 = reports w @
              [\<lparr>r_code = reply (Suc (Suc 0)) (script w), r_func = f, r_msg = x,
                r_errno = reply (Suc (Suc 0)) (script w)\<rparr>])"
      by (auto simp: first_fault_unfold quiet_unfold)
    then show ?thesis by (intro exI [of _ "Suc (Suc 0)"]) simp
  next
    case d
    with E show ?thesis by (simp add: pending_reply)
  qed
qed

lemma createMutex_None_first:
  assumes "createMutex w = Ret None w'"
  shows "\<exists>k<6. first_fault k (script w) \<and>
           (\<exists>f x rs. new_reports w w' =
              \<lparr>r_code = (if k = 0 \<or> k = 3 then ENOMEM else reply k (script w)), r_func = f,
                r_msg = x,
                r_errno = (if k = 0 \<or> k = 3 then ENOMEM else reply k (script w))\<rparr> # rs)"
proof -
  obtain p w1 where attr: "createMutexAttribute w = Ret p w1"
    using createMutexAttribute_total by blast
  show ?thesis
  proof (cases p)
    case None
    from createMutexAttribute_None_first [OF attr [unfolded None]] obtain k f x where
      k: "k < 3" "first_fault k (script w)"
      and r: "reports w1 = reports w @
              [\<lparr>r_code = (if k = 0 then ENOMEM else reply k (script w)), r_func = f,
                r_msg = x, r_errno = (if k = 0 then ENOMEM else reply k (script w))\<rparr>]"
      by blast
    from assms have w': "w' = printError 0 ''createMutex'' (Some ''Could not create attribute.'') w1"
      by (simp add: createMutex_no_attribute [OF attr [unfolded None]])
    from k(1) have k6: "k < 6" "k \<noteq> 3" by simp_all
    have "\<exists>f x rs. new_reports w w' =
              \<lparr>r_code = (if k = 0 \<or> k = 3 then ENOMEM else reply k (script w)), r_func = f,
                r_msg = x,
                r_errno = (if k = 0 \<or> k = 3 then ENOMEM else reply k (script w))\<rparr> # rs"
      using k6(2) by (simp add: w' r new_reports_def)
    with k(2) k6(1) show ?thesis by blast
  next
    case (Some a)
    note A = createMutexAttribute_Some [OF attr [unfolded Some]]
    have c: "cell_at w1 a = Some (Attr PTHREAD_MUTEX_ERRORCHECK)"
      by (simp add: A(3))
    note E = assms [unfolded createMutex_with_attribute [OF attr [unfolded Some] c] Let_def]
    have q3: "quiet (Suc (Suc (Suc 0))) (script w)"
      using A(6) by (simp add: eval_nat_numeral)
    let ?r3 = "reply (Suc (Suc (Suc 0))) (script w)"
    let ?r4 = "reply (Suc (Suc (Suc (Suc 0)))) (script w)"
    let ?r5 = "reply (Suc (Suc (Suc (Suc (Suc 0))))) (script w)"
    have n3: "reply 3 (script w) = ?r3" and n4: "reply 4 (script w) = ?r4"
      and n5: "reply 5 (script w) = ?r5"
      by (simp_all add: eval_nat_numeral)
    consider (a) "?r3 \<noteq> 0" | (b) "?r3 = 0" "?r4 \<noteq> 0" | (c) "?r3 = 0" "?r4 = 0" "?r5 \<noteq> 0"
      | (d) "?r3 = 0" "?r4 = 0" "?r5 = 0"
      by blast
    then show ?thesis
    proof cases
      case a
      with q3 have f: "first_fault 3 (script w)"
        by (simp add: first_fault_def eval_nat_numeral)
      from a E have "\<exists>f x rs. new_reports w w' =
              \<lparr>r_code = ENOMEM, r_func = f, r_msg = x, r_errno = ENOMEM\<rparr> # rs"
        by (auto simp: pending_reply A eval_nat_numeral new_reports_def split: if_splits)
      with f show ?thesis by (intro exI [of _ 3]) simp
    next
      case b
      with q3 have f: "first_fault 4 (script w)"
        by (simp add: first_fault_def eval_nat_numeral quiet_Suc_iff)
      from b E have "\<exists>f x rs. new_reports w w' =
              \<lparr>r_code = ?r4, r_func = f, r_msg = x, r_errno = ?r4\<rparr> # rs"
        by (auto simp: pending_reply A eval_nat_numeral new_reports_def split: if_splits)
      with f show ?thesis by (intro exI [of _ 4]) (simp add: n4)
    next
      case c
      with q3 have f: "first_fault 5 (script w)"
        by (simp add: first_fault_def eval_nat_numeral quiet_Suc_iff)
      from c E have "\<exists>f x rs. new_reports w w' =
              \<lparr>r_code = ?r5, r_func = f, r_msg = x, r_errno = ?r5\<rparr> # rs"
        by (auto simp: pending_reply A eval_nat_numeral new_reports_def split: if_splits)
      with f show ?thesis by (intro exI [of _ 5]) (simp add: n5)
    next
      case d
      with E show ?thesis
        by (simp add: pending_reply A eval_nat_numeral)
    qed
  qed
qed

lemma createMutex_report_codes:
  assumes "createMutex w = Ret p w'"
  shows "\<forall>r \<in> set (new_reports w w'). r_code r = 0 \<or> r_code r = r_errno r"
proof -
  obtain q w1 where attr: "createMutexAttribute w = Ret q w1"
    using createMutexAttribute_total by blast
  show ?thesis
  proof (cases q)
    case None
    from createMutexAttribute_None(2) [OF attr [unfolded None]] obtain r where
      r: "reports w1 = reports w @ [r]" "r_code r = r_errno r" by blast
    from assms have w': "w' = printError 0 ''createMutex'' (Some ''Could not create attribute.'') w1"
      by (simp add: createMutex_no_attribute [OF attr [unfolded None]])
    show ?thesis by (simp add: w' r new_reports_def)
  next
    case (Some a)
    note A = createMutexAttribute_Some [OF attr [unfolded Some]]
    have c: "cell_at w1 a = Some (Attr PTHREAD_MUTEX_ERRORCHECK)"
      by (simp add: A(3))
    note E = assms [unfolded createMutex_with_attribute [OF attr [unfolded Some] c] Let_def]
    from E show ?thesis
      by (auto simp: A new_reports_def split: if_splits)
  qed
qed

subsection \<open>Evaluation on concrete states\<close>

lemmas eval_defs = createMutex_def createMutexAttribute_def destroyMutexAttribute_def
  lockMutex_def unlockMutex_def destroyMutex_def malloc_def free_def alloc_def release_def
  pthread_mutexattr_init_def pthread_mutexattr_settype_def pthread_mutexattr_destroy_def
  pthread_mutex_init_def pthread_mutex_lock_def pthread_mutex_trylock_def
  pthread_mutex_unlock_def pthread_mutex_destroy_def obind_def cell_at_def store_def
  set_errno_def pending_def consume_def printError_def handle_state_def new_reports_def
  quiet_def reply_def first_fault_def live_def
  world0_def world_unlocked_def world_locked_def world_leak_def world_leaked_def
  world_nomem_def world_nomem_after_def world_destroy_fails_def Let_def

section \<open>The claims\<close>

text \<open>
  In the statements below \<open>w\<close> is the state before a call and \<open>w'\<close> the state
  after it, \<open>t\<close> is the calling thread and \<open>m\<close> the address a handle points to.
  \<open>quiet n (script w)\<close> says that the operating system reports no error of its own in
  the next \<open>n\<close> calls, so that the primitives answer by the rules of the
  error-checking mutex alone.
\<close>

text \<open>
  C1. Each handle follows the state machine of the spec. A handle that \<open>createMutex\<close>
  returns was uninitialized before the call and is unlocked after it, and
  \<open>createMutex\<close> returns one when the operating system reports no error. When the
  operating system reports no error of its own, \<open>lockMutex\<close> takes an unlocked handle
  to locked by the caller, \<open>unlockMutex\<close> by the owner takes it back to unlocked, and
  \<open>destroyMutex\<close> takes an unlocked handle to uninitialized. \<open>destroyMutex\<close> on a
  locked handle returns 1 and the handle stays locked by its owner. Conversely a
  call that returns 0 on a handle has made exactly the transition of the state
  machine.
\<close>

theorem handle_state_machine:
  "(createMutex w = Ret (Some m) w' \<longrightarrow>
      handle_state w m = UNINITIALIZED \<and> handle_state w' m = UNLOCKED) \<and>
   (quiet 6 (script w) \<longrightarrow> (\<exists>h w1. createMutex w = Ret (Some h) w1)) \<and>
   (handle_state w m = UNLOCKED \<and> quiet 1 (script w) \<longrightarrow>
      (\<exists>w1. lockMutex t (Some m) w = Ret 0 w1 \<and> handle_state w1 m = LOCKED t)) \<and>
   (handle_state w m = LOCKED t \<and> quiet 1 (script w) \<longrightarrow>
      (\<exists>w1. unlockMutex t (Some m) w = Ret 0 w1 \<and> handle_state w1 m = UNLOCKED)) \<and>
   (handle_state w m = UNLOCKED \<and> quiet 3 (script w) \<longrightarrow>
      (\<exists>w1. destroyMutex t (Some m) w = Ret 0 w1 \<and> handle_state w1 m = UNINITIALIZED)) \<and>
   (handle_state w m = LOCKED t' \<longrightarrow>
      (\<exists>w1. destroyMutex t (Some m) w = Ret 1 w1 \<and> handle_state w1 m = LOCKED t')) \<and>
   (handle_state w m \<noteq> UNINITIALIZED \<and> lockMutex t (Some m) w = Ret 0 w' \<longrightarrow>
      handle_state w m = UNLOCKED \<and> handle_state w' m = LOCKED t) \<and>
   (handle_state w m \<noteq> UNINITIALIZED \<and> unlockMutex t (Some m) w = Ret 0 w' \<longrightarrow>
      handle_state w m = LOCKED t \<and> handle_state w' m = UNLOCKED) \<and>
   (handle_state w m \<noteq> UNINITIALIZED \<and> destroyMutex t (Some m) w = Ret 0 w' \<longrightarrow>
      handle_state w m = UNLOCKED \<and> handle_state w' m = UNINITIALIZED)"
proof (intro conjI impI)
  assume c: "createMutex w = Ret (Some m) w'"
  note S = createMutex_Some [OF c]
  show "handle_state w m = UNINITIALIZED" by (simp add: handle_state_def S(1))
  show "handle_state w' m = UNLOCKED" by (simp add: handle_state_def S(2))
next
  assume "quiet 6 (script w)"
  then show "\<exists>h w1. createMutex w = Ret (Some h) w1"
    using createMutex_quiet by blast
next
  assume "handle_state w m = UNLOCKED \<and> quiet 1 (script w)"
  then show "\<exists>w1. lockMutex t (Some m) w = Ret 0 w1 \<and> handle_state w1 m = LOCKED t"
    by (simp add: lock_transition)
next
  assume "handle_state w m = LOCKED t \<and> quiet 1 (script w)"
  then show "\<exists>w1. unlockMutex t (Some m) w = Ret 0 w1 \<and> handle_state w1 m = UNLOCKED"
    by (simp add: unlock_transition)
next
  assume "handle_state w m = UNLOCKED \<and> quiet 3 (script w)"
  then show "\<exists>w1. destroyMutex t (Some m) w = Ret 0 w1 \<and> handle_state w1 m = UNINITIALIZED"
    by (simp add: destroy_transition)
next
  assume "handle_state w m = LOCKED t'"
  from destroy_refused [OF this]
  show "\<exists>w1. destroyMutex t (Some m) w = Ret 1 w1 \<and> handle_state w1 m = LOCKED t'"
    by blast
next
  assume a: "handle_state w m \<noteq> UNINITIALIZED \<and> lockMutex t (Some m) w = Ret 0 w'"
  then show "handle_state w m = UNLOCKED" "handle_state w' m = LOCKED t"
    using lock_success_only by blast+
next
  assume a: "handle_state w m \<noteq> UNINITIALIZED \<and> unlockMutex t (Some m) w = Ret 0 w'"
  then show "handle_state w m = LOCKED t" "handle_state w' m = UNLOCKED"
    using unlock_success_only by blast+
next
  assume a: "handle_state w m \<noteq> UNINITIALIZED \<and> destroyMutex t (Some m) w = Ret 0 w'"
  then show "handle_state w m = UNLOCKED" "handle_state w' m = UNINITIALIZED"
    using destroy_success_only by blast+
qed


theorem handle_state_machine_witness:
  "createMutex world0 = Ret (Some 1) world_unlocked \<and>
   handle_state world0 1 = UNINITIALIZED \<and> handle_state world_unlocked 1 = UNLOCKED \<and>
   quiet 6 (script world0) \<and> quiet 3 (script world_unlocked) \<and>
   handle_state world_locked 1 = LOCKED 7 \<and> quiet 1 (script world_locked) \<and>
   (\<exists>w1. lockMutex 7 (Some 1) world_unlocked = Ret 0 w1 \<and> handle_state w1 1 = LOCKED 7) \<and>
   (\<exists>w1. unlockMutex 7 (Some 1) world_locked = Ret 0 w1 \<and> handle_state w1 1 = UNLOCKED) \<and>
   (\<exists>w1. destroyMutex 7 (Some 1) world_unlocked = Ret 0 w1 \<and>
      handle_state w1 1 = UNINITIALIZED) \<and>
   (\<exists>w1. destroyMutex 8 (Some 1) world_locked = Ret 1 w1 \<and> handle_state w1 1 = LOCKED 7)"
proof -
  have c: "createMutex world0 = Ret (Some 1) world_unlocked"
    by (simp add: eval_defs)
  have q: "quiet 6 (script world0)" "quiet 1 (script world_unlocked)"
    "quiet 3 (script world_unlocked)" "quiet 1 (script world_locked)"
    by (simp_all add: quiet_def world0_def world_unlocked_def world_locked_def)
  have u: "handle_state world_unlocked 1 = UNLOCKED"
    and l: "handle_state world_locked 1 = LOCKED 7"
    by (simp_all add: handle_state_def cell_at_def world_unlocked_def world_locked_def)
  have 1: "handle_state world0 1 = UNINITIALIZED"
    using handle_state_machine
      [where w = world0 and m = 1 and w' = world_unlocked, THEN conjunct1] c
    by simp
  have 2: "\<exists>w1. lockMutex 7 (Some 1) world_unlocked = Ret 0 w1 \<and> handle_state w1 1 = LOCKED 7"
    using handle_state_machine
      [where w = world_unlocked and m = 1 and t = 7, THEN conjunct2, THEN conjunct2,
        THEN conjunct1] u q(2)
    by simp
  have 3: "\<exists>w1. unlockMutex 7 (Some 1) world_locked = Ret 0 w1 \<and> handle_state w1 1 = UNLOCKED"
    using handle_state_machine
      [where w = world_locked and m = 1 and t = 7, THEN conjunct2, THEN conjunct2,
        THEN conjunct2, THEN conjunct1] l q(4)
    by simp
  have 4: "\<exists>w1. destroyMutex 7 (Some 1) world_unlocked = Ret 0 w1 \<and>
             handle_state w1 1 = UNINITIALIZED"
    using handle_state_machine
      [where w = world_unlocked and m = 1 and t = 7, THEN conjunct2, THEN conjunct2,
        THEN conjunct2, THEN conjunct2, THEN conjunct1] u q(3)
    by simp
  have 5: "\<exists>w1. destroyMutex 8 (Some 1) world_locked = Ret 1 w1 \<and> handle_state w1 1 = LOCKED 7"
    using handle_state_machine
      [where w = world_locked and m = 1 and t = 8 and t' = 7, THEN conjunct2,
        THEN conjunct2, THEN conjunct2, THEN conjunct2, THEN conjunct2, THEN conjunct1] l
    by simp
  show ?thesis
    by (intro conjI) (rule c 1 u q l 2 3 4 5)+
qed

text \<open>
  C2, as stated, fails. In \<open>world_leak\<close> the first call to fail is the allocation of
  the handle (the fourth call); \<open>createMutex\<close> then calls \<open>destroyMutexAttribute\<close>,
  \<open>pthread_mutexattr_destroy\<close> fails too, \<open>destroyMutexAttribute\<close> returns 1 without
  freeing the attribute, and \<open>createMutex\<close> returns \<open>NULL\<close> with the attribute block
  still live: no block was live before the call, block \<open>0\<close> is live after it.
\<close>

theorem createMutex_leak_counterexample:
  "first_fault 3 (script world_leak) \<and>
   createMutex world_leak = Ret None world_leaked \<and>
   live world_leak = [] \<and> live world_leaked = [0] \<and>
   cell_at world_leak 0 = None \<and>
   cell_at world_leaked 0 = Some (Attr PTHREAD_MUTEX_ERRORCHECK)"
  by (simp add: eval_defs ENOMEM_def)

text \<open>
  C2, amended. \<open>createMutex\<close> always returns. It returns \<open>NULL\<close> exactly when one of
  its (at most six) calls of the operating system fails: the two allocations, the
  initialisation and the configuration of the attribute, the initialisation of the
  mutex, the teardown of the attribute. When it returns \<open>NULL\<close> and no failure of
  \<open>destroyMutexAttribute\<close> has been reported, every block it acquired has been
  released: the heap has the same live blocks with the same contents as before. On
  every failure the memory of the handle has been released: a block that differs from
  before can only be the attribute. A handle that is returned is fully constructed: an
  unlocked error-checking mutex in a block that was not live before, the only block
  that differs.
\<close>

theorem createMutex_failure_cleanup:
  "(\<exists>p1 w1. createMutex w = Ret p1 w1) \<and>
   (createMutex w = Ret p w' \<longrightarrow> (p = None \<longleftrightarrow> \<not> quiet 6 (script w))) \<and>
   (createMutex w = Ret None w' \<and>
    (\<forall>r \<in> set (new_reports w w'). r_func r \<noteq> ''destroyMutexAttribute'') \<longrightarrow>
      cell_at w' = cell_at w) \<and>
   (createMutex w = Ret None w' \<longrightarrow>
      (\<forall>b. cell_at w' b = cell_at w b \<or>
         (cell_at w b = None \<and> cell_at w' b = Some (Attr PTHREAD_MUTEX_ERRORCHECK)))) \<and>
   (createMutex w = Ret (Some m) w' \<longrightarrow>
      cell_at w m = None \<and>
      cell_at w' = (cell_at w)(m \<mapsto> Mutex PTHREAD_MUTEX_ERRORCHECK None))"
proof (intro conjI impI allI)
  show "\<exists>p1 w1. createMutex w = Ret p1 w1" by (rule createMutex_total)
next
  assume c: "createMutex w = Ret p w'"
  show "p = None \<longleftrightarrow> \<not> quiet 6 (script w)"
  proof (cases p)
    case None
    with c show ?thesis by (simp add: createMutex_None(1))
  next
    case (Some a)
    with c show ?thesis by (simp add: createMutex_Some(5))
  qed
next
  assume "createMutex w = Ret None w' \<and>
    (\<forall>r \<in> set (new_reports w w'). r_func r \<noteq> ''destroyMutexAttribute'')"
  then show "cell_at w' = cell_at w"
    using createMutex_None(4) by blast
next
  fix b
  assume "createMutex w = Ret None w'"
  from createMutex_None(3) [OF this, of b]
  show "cell_at w' b = cell_at w b \<or>
         (cell_at w b = None \<and> cell_at w' b = Some (Attr PTHREAD_MUTEX_ERRORCHECK))"
    by blast
next
  assume c: "createMutex w = Ret (Some m) w'"
  show "cell_at w m = None" by (simp add: createMutex_Some(1) [OF c])
  show "cell_at w' = (cell_at w)(m \<mapsto> Mutex PTHREAD_MUTEX_ERRORCHECK None)"
    by (rule createMutex_Some(2) [OF c])
qed

theorem createMutex_failure_cleanup_witness:
  "createMutex world_nomem = Ret None world_nomem_after \<and>
   \<not> quiet 6 (script world_nomem) \<and>
   new_reports world_nomem world_nomem_after =
     [\<lparr>r_code = 12, r_func = ''createMutex'',
       r_msg = Some ''Could not allocate memory for mutex.'', r_errno = 12\<rparr>] \<and>
   cell_at world_nomem_after = cell_at world_nomem \<and>
   createMutex world0 = Ret (Some 1) world_unlocked \<and>
   cell_at world0 1 = None \<and>
   cell_at world_unlocked = (cell_at world0)(1 \<mapsto> Mutex PTHREAD_MUTEX_ERRORCHECK None)"
proof -
  have c: "createMutex world_nomem = Ret None world_nomem_after"
    by (simp add: eval_defs ENOMEM_def)
  have s: "createMutex world0 = Ret (Some 1) world_unlocked"
    by (simp add: eval_defs)
  have n: "\<forall>r \<in> set (new_reports world_nomem world_nomem_after).
      r_func r \<noteq> ''destroyMutexAttribute''"
    by (simp add: new_reports_def world_nomem_def world_nomem_after_def)
  have 1: "\<not> quiet 6 (script world_nomem)"
    using createMutex_failure_cleanup
      [where w = world_nomem and w' = world_nomem_after and p = None,
        THEN conjunct2, THEN conjunct1] c
    by blast
  have 2: "cell_at world_nomem_after = cell_at world_nomem"
    using createMutex_failure_cleanup
      [where w = world_nomem and w' = world_nomem_after,
        THEN conjunct2, THEN conjunct2, THEN conjunct1] c n
    by blast
  have 3: "cell_at world0 1 = None \<and>
           cell_at world_unlocked = (cell_at world0)(1 \<mapsto> Mutex PTHREAD_MUTEX_ERRORCHECK None)"
    using createMutex_failure_cleanup
      [where w = world0 and w' = world_unlocked and m = 1,
        THEN conjunct2, THEN conjunct2, THEN conjunct2, THEN conjunct2] s
    by blast
  have r: "new_reports world_nomem world_nomem_after =
     [\<lparr>r_code = 12, r_func = ''createMutex'',
       r_msg = Some ''Could not allocate memory for mutex.'', r_errno = 12\<rparr>]"
    by (simp add: new_reports_def world_nomem_def world_nomem_after_def)
  from c 1 r 2 s 3 show ?thesis by blast
qed

text \<open>
  C3. On a handle locked by any thread, \<open>destroyMutex\<close> makes one call of the
  operating system, the probe \<open>pthread_mutex_trylock\<close>, which returns a nonzero code,
  and returns 1 without waiting. It prints the diagnostic "Could not destroy mutex as it is locked." with
  the error code that is also in \<open>errno\<close> (\<open>EBUSY\<close> when the operating system reports
  no error of its own) and leaves the heap unchanged: the handle is still locked by
  its owner. It is still usable and destructible: when the operating system reports
  no error of its own, the owner's \<open>unlockMutex\<close> returns 0 and \<open>destroyMutex\<close>
  then returns 0 and the handle is gone.
\<close>

theorem destroyMutex_locked_refused:
  assumes "handle_state w m = LOCKED t'"
  shows "\<exists>w'. destroyMutex t (Some m) w = Ret 1 w' \<and> heap w' = heap w \<and>
           handle_state w' m = LOCKED t' \<and> script w' = drop 1 (script w) \<and>
           (\<exists>v. pthread_mutex_trylock t m w = Ret (errno w') v) \<and>
           errno w' \<noteq> 0 \<and> (quiet 1 (script w) \<longrightarrow> errno w' = EBUSY) \<and>
           new_reports w w' =
             [\<lparr>r_code = errno w', r_func = ''destroyMutex'',
               r_msg = Some ''Could not destroy mutex as it is locked.'',
               r_errno = errno w'\<rparr>] \<and>
           (quiet 4 (script w') \<longrightarrow>
              (\<exists>w1 w2. unlockMutex t' (Some m) w' = Ret 0 w1 \<and>
                 handle_state w1 m = UNLOCKED \<and>
                 destroyMutex t (Some m) w1 = Ret 0 w2 \<and>
                 handle_state w2 m = UNINITIALIZED))"
proof -
  from destroy_refused [OF assms, of t] obtain w' where
    d: "destroyMutex t (Some m) w = Ret 1 w'" and h: "handle_state w' m = LOCKED t'"
    and r: "heap w' = heap w" "script w' = drop 1 (script w)" "errno w' \<noteq> 0"
      "\<exists>v. pthread_mutex_trylock t m w = Ret (errno w') v"
      "quiet 1 (script w) \<longrightarrow> errno w' = EBUSY"
      "new_reports w w' =
             [\<lparr>r_code = errno w', r_func = ''destroyMutex'',
               r_msg = Some ''Could not destroy mutex as it is locked.'',
               r_errno = errno w'\<rparr>]"
    by blast
  have later: "\<exists>w1 w2. unlockMutex t' (Some m) w' = Ret 0 w1 \<and>
                 handle_state w1 m = UNLOCKED \<and>
                 destroyMutex t (Some m) w1 = Ret 0 w2 \<and>
                 handle_state w2 m = UNINITIALIZED"
    if q: "quiet 4 (script w')"
  proof -
    from h have c: "cell_at w' m = Some (Mutex PTHREAD_MUTEX_ERRORCHECK (Some t'))"
      by (simp add: handle_state_LOCKED)
    then have m: "m < length (heap w')" by (rule cell_at_live)
    let ?w1 = "set_errno 0 (store m (Mutex PTHREAD_MUTEX_ERRORCHECK None) (consume w'))"
    from q have q0: "reply 0 (script w') = 0" and q3: "quiet 3 (script ?w1)"
      by (simp_all add: quiet_unfold)
    have ul: "unlockMutex t' (Some m) w' = Ret 0 ?w1"
      using q0 by (simp add: unlockMutex_Mutex [OF c] pending_reply)
    have u: "handle_state ?w1 m = UNLOCKED" using m by simp
    from destroy_transition [OF u q3, of t] ul u show ?thesis by blast
  qed
  from d h r later show ?thesis by blast
qed

theorem destroyMutex_locked_refused_witness:
  "handle_state world_locked 1 = LOCKED 7 \<and>
   (\<exists>w'. destroyMutex 8 (Some 1) world_locked = Ret 1 w' \<and> heap w' = heap world_locked \<and>
      handle_state w' 1 = LOCKED 7 \<and> errno w' = EBUSY \<and>
      (\<exists>w1 w2. unlockMutex 7 (Some 1) w' = Ret 0 w1 \<and> handle_state w1 1 = UNLOCKED \<and>
         destroyMutex 8 (Some 1) w1 = Ret 0 w2 \<and> handle_state w2 1 = UNINITIALIZED))"
proof -
  have l: "handle_state world_locked 1 = LOCKED 7"
    by (simp add: handle_state_def cell_at_def world_locked_def)
  have s: "script world_locked = []"
    by (simp add: world_locked_def)
  from destroyMutex_locked_refused [OF l, of 8] obtain w' where
    w': "destroyMutex 8 (Some 1) world_locked = Ret 1 w'" "heap w' = heap world_locked"
      "handle_state w' 1 = LOCKED 7" "script w' = drop 1 (script world_locked)"
      "quiet 1 (script world_locked) \<longrightarrow> errno w' = EBUSY"
      "quiet 4 (script w') \<longrightarrow>
              (\<exists>w1 w2. unlockMutex 7 (Some 1) w' = Ret 0 w1 \<and>
                 handle_state w1 1 = UNLOCKED \<and>
                 destroyMutex 8 (Some 1) w1 = Ret 0 w2 \<and>
                 handle_state w2 1 = UNINITIALIZED)"
    by blast
  have "quiet 1 (script world_locked)" "quiet 4 (script w')"
    by (simp_all add: w'(4) s quiet_def)
  with w' l show ?thesis by blast
qed

text \<open>
  C4. On an unlocked handle, when the operating system reports no error of its own
  in the three calls, \<open>destroyMutex\<close> returns 0 along this path: the probe
  \<open>pthread_mutex_trylock\<close> returns 0 and leaves the handle locked by the caller, where
  \<open>pthread_mutex_destroy\<close> would be undefined; \<open>unlockMutex\<close> returns 0 and the handle
  is unlocked again; \<open>pthread_mutex_destroy\<close> then returns 0 and \<open>free\<close> releases the
  block; nothing is printed. When instead \<open>pthread_mutex_destroy\<close> is the first call
  to fail, \<open>destroyMutex\<close> returns 1, with the error code in \<open>errno\<close> and in the one
  diagnostic "Could not destroy mutex.", and the handle stays unlocked.
\<close>

theorem destroyMutex_unlocked:
  assumes "handle_state w m = UNLOCKED"
  shows "(quiet 3 (script w) \<longrightarrow>
           (\<exists>w1 w2 w3 w4.
              pthread_mutex_trylock t m w = Ret 0 w1 \<and> handle_state w1 m = LOCKED t \<and>
              pthread_mutex_destroy m (set_errno 0 w1) = UB \<and>
              unlockMutex t (Some m) (set_errno 0 w1) = Ret 0 w2 \<and>
              handle_state w2 m = UNLOCKED \<and>
              pthread_mutex_destroy m w2 = Ret 0 w3 \<and> cell_at w3 m = Some Raw \<and>
              free m (set_errno 0 w3) = Ret () w4 \<and>
              destroyMutex t (Some m) w = Ret 0 w4 \<and>
              cell_at w4 m = None \<and> new_reports w w4 = [])) \<and>
         (first_fault 2 (script w) \<longrightarrow>
           (\<exists>w'. destroyMutex t (Some m) w = Ret 1 w' \<and> handle_state w' m = UNLOCKED \<and>
              errno w' = reply 2 (script w) \<and>
              new_reports w w' =
                [\<lparr>r_code = reply 2 (script w), r_func = ''destroyMutex'',
                  r_msg = Some ''Could not destroy mutex.'',
                  r_errno = reply 2 (script w)\<rparr>]))"
proof (intro conjI impI)
  from assms have c: "cell_at w m = Some (Mutex PTHREAD_MUTEX_ERRORCHECK None)"
    by (simp add: handle_state_UNLOCKED)
  then have m: "m < length (heap w)" by (rule cell_at_live)
  let ?w1 = "store m (Mutex PTHREAD_MUTEX_ERRORCHECK (Some t)) (consume w)"
  let ?w2 = "set_errno 0 (store m (Mutex PTHREAD_MUTEX_ERRORCHECK None)
               (consume (set_errno 0 ?w1)))"
  let ?w3 = "store m Raw (consume ?w2)"
  let ?w4 = "release m (set_errno 0 ?w3)"
  have c1: "cell_at (set_errno 0 ?w1) m = Some (Mutex PTHREAD_MUTEX_ERRORCHECK (Some t))"
    using m by simp
  have c2: "cell_at ?w2 m = Some (Mutex PTHREAD_MUTEX_ERRORCHECK None)"
    using m by simp
  have c3: "cell_at (set_errno 0 ?w3) m = Some Raw"
    using m by simp
  {
    assume "quiet 3 (script w)"
    then have q: "reply 0 (script w) = 0" "reply (Suc 0) (script w) = 0"
      "reply (Suc (Suc 0)) (script w) = 0"
      by (simp_all add: quiet_unfold)
    have 1: "pthread_mutex_trylock t m w = Ret 0 ?w1"
      using q by (simp add: trylock_Mutex [OF c] pending_reply)
    have 2: "handle_state ?w1 m = LOCKED t" using m by simp
    have 3: "pthread_mutex_destroy m (set_errno 0 ?w1) = UB"
      using q by (simp add: destroy_Mutex [OF c1] pending_reply)
    have 4: "unlockMutex t (Some m) (set_errno 0 ?w1) = Ret 0 ?w2"
      using q by (simp add: unlockMutex_Mutex [OF c1] pending_reply)
    have 5: "handle_state ?w2 m = UNLOCKED" using m by simp
    have 6: "pthread_mutex_destroy m ?w2 = Ret 0 ?w3"
      using q by (simp add: destroy_Mutex [OF c2] pending_reply)
    have 7: "cell_at ?w3 m = Some Raw" using m by simp
    have 8: "free m (set_errno 0 ?w3) = Ret () ?w4"
      by (rule free_live [OF c3])
    have 9: "destroyMutex t (Some m) w = Ret 0 ?w4"
      using q by (simp add: destroyMutex_Mutex [OF c] pending_reply Let_def)
    have 10: "cell_at ?w4 m = None" "new_reports w ?w4 = []"
      by (simp_all add: new_reports_def)
    from 1 2 3 4 5 6 7 8 9 10
    show "\<exists>w1 w2 w3 w4.
              pthread_mutex_trylock t m w = Ret 0 w1 \<and> handle_state w1 m = LOCKED t \<and>
              pthread_mutex_destroy m (set_errno 0 w1) = UB \<and>
              unlockMutex t (Some m) (set_errno 0 w1) = Ret 0 w2 \<and>
              handle_state w2 m = UNLOCKED \<and>
              pthread_mutex_destroy m w2 = Ret 0 w3 \<and> cell_at w3 m = Some Raw \<and>
              free m (set_errno 0 w3) = Ret () w4 \<and>
              destroyMutex t (Some m) w = Ret 0 w4 \<and>
              cell_at w4 m = None \<and> new_reports w w4 = []"
      by blast
  }
  {
    assume "first_fault 2 (script w)"
    then have q: "reply 0 (script w) = 0" "reply (Suc 0) (script w) = 0"
      "reply (Suc (Suc 0)) (script w) \<noteq> 0"
      by (simp_all add: first_fault_2)
    have two: "reply 2 (script w) = reply (Suc (Suc 0)) (script w)"
      by (simp add: numeral_2_eq_2)
    show "\<exists>w'. destroyMutex t (Some m) w = Ret 1 w' \<and> handle_state w' m = UNLOCKED \<and>
              errno w' = reply 2 (script w) \<and>
              new_reports w w' =
                [\<lparr>r_code = reply 2 (script w), r_func = ''destroyMutex'',
                  r_msg = Some ''Could not destroy mutex.'',
                  r_errno = reply 2 (script w)\<rparr>]"
      unfolding two
      using q m by (simp add: destroyMutex_Mutex [OF c] pending_reply Let_def new_reports_def)
  }
qed

theorem destroyMutex_unlocked_witness:
  "handle_state world_unlocked 1 = UNLOCKED \<and> quiet 3 (script world_unlocked) \<and>
   (\<exists>w4. destroyMutex 7 (Some 1) world_unlocked = Ret 0 w4 \<and> cell_at w4 1 = None \<and>
      new_reports world_unlocked w4 = []) \<and>
   handle_state world_destroy_fails 1 = UNLOCKED \<and>
   first_fault 2 (script world_destroy_fails) \<and>
   (\<exists>w'. destroyMutex 7 (Some 1) world_destroy_fails = Ret 1 w' \<and>
      handle_state w' 1 = UNLOCKED \<and> errno w' = 16)"
proof -
  have u: "handle_state world_unlocked 1 = UNLOCKED"
    and v: "handle_state world_destroy_fails 1 = UNLOCKED"
    by (simp_all add: handle_state_def cell_at_def world_unlocked_def world_destroy_fails_def)
  have q: "quiet 3 (script world_unlocked)"
    by (simp add: quiet_def world_unlocked_def)
  have f: "first_fault 2 (script world_destroy_fails)"
    by (simp add: first_fault_def quiet_def reply_def world_destroy_fails_def)
  have r: "reply 2 (script world_destroy_fails) = 16"
    by (simp add: reply_def world_destroy_fails_def)
  have 1: "\<exists>w4. destroyMutex 7 (Some 1) world_unlocked = Ret 0 w4 \<and> cell_at w4 1 = None \<and>
      new_reports world_unlocked w4 = []"
    using destroyMutex_unlocked [OF u, of 7, THEN conjunct1] q by blast
  have 2: "\<exists>w'. destroyMutex 7 (Some 1) world_destroy_fails = Ret 1 w' \<and>
      handle_state w' 1 = UNLOCKED \<and> errno w' = 16"
    using destroyMutex_unlocked [OF v, of 7, THEN conjunct2] f r by auto
  show ?thesis
    by (intro conjI) (rule u q 1 v f 2)+
qed

text \<open>
  C5. When the calling thread holds the handle, \<open>lockMutex\<close> returns 1 at once: it
  neither waits nor succeeds. The handle stays locked by the thread, the heap is
  unchanged, one diagnostic is printed with the error code that is also in
  \<open>errno\<close>, and that code is \<open>EDEADLK\<close> when the operating system reports no error of
  its own. In particular a second \<open>lockMutex\<close> right after a successful one fails.
\<close>

theorem lockMutex_relock_fails:
  "(handle_state w m = LOCKED t \<longrightarrow>
      (\<exists>w'. lockMutex t (Some m) w = Ret 1 w' \<and> handle_state w' m = LOCKED t \<and>
         heap w' = heap w \<and> errno w' \<noteq> 0 \<and>
         (quiet 1 (script w) \<longrightarrow> errno w' = EDEADLK) \<and>
         new_reports w w' =
           [\<lparr>r_code = errno w', r_func = ''lockMutex'',
             r_msg = Some ''Could not lock mutex.'', r_errno = errno w'\<rparr>])) \<and>
   (handle_state w m = UNLOCKED \<and> lockMutex t (Some m) w = Ret 0 w1 \<longrightarrow>
      (\<exists>w2. lockMutex t (Some m) w1 = Ret 1 w2 \<and> handle_state w2 m = LOCKED t))"
proof (intro conjI impI)
  have *: "\<exists>w'. lockMutex t (Some m) v = Ret 1 w' \<and> handle_state w' m = LOCKED t \<and>
         heap w' = heap v \<and> errno w' \<noteq> 0 \<and>
         (quiet 1 (script v) \<longrightarrow> errno w' = EDEADLK) \<and>
         new_reports v w' =
           [\<lparr>r_code = errno w', r_func = ''lockMutex'',
             r_msg = Some ''Could not lock mutex.'', r_errno = errno w'\<rparr>]"
    if "handle_state v m = LOCKED t" for v
  proof -
    from that have c: "cell_at v m = Some (Mutex PTHREAD_MUTEX_ERRORCHECK (Some t))"
      by (simp add: handle_state_LOCKED)
    show ?thesis
      using that by (simp add: lockMutex_Mutex [OF c] quiet_unfold new_reports_def)
  qed
  {
    assume "handle_state w m = LOCKED t"
    then show "\<exists>w'. lockMutex t (Some m) w = Ret 1 w' \<and> handle_state w' m = LOCKED t \<and>
         heap w' = heap w \<and> errno w' \<noteq> 0 \<and>
         (quiet 1 (script w) \<longrightarrow> errno w' = EDEADLK) \<and>
         new_reports w w' =
           [\<lparr>r_code = errno w', r_func = ''lockMutex'',
             r_msg = Some ''Could not lock mutex.'', r_errno = errno w'\<rparr>]"
      by (rule *)
  }
  {
    assume a: "handle_state w m = UNLOCKED \<and> lockMutex t (Some m) w = Ret 0 w1"
    then have "handle_state w1 m = LOCKED t"
      using lock_success_only [of t m w w1] by simp
    from * [OF this]
    show "\<exists>w2. lockMutex t (Some m) w1 = Ret 1 w2 \<and> handle_state w2 m = LOCKED t"
      by blast
  }
qed

theorem lockMutex_relock_fails_witness:
  "handle_state world_locked 1 = LOCKED 7 \<and> quiet 1 (script world_locked) \<and>
   (\<exists>w'. lockMutex 7 (Some 1) world_locked = Ret 1 w' \<and> handle_state w' 1 = LOCKED 7 \<and>
      heap w' = heap world_locked \<and> errno w' = EDEADLK) \<and>
   handle_state world_unlocked 1 = UNLOCKED \<and>
   lockMutex 7 (Some 1) world_unlocked = Ret 0 world_locked \<and>
   (\<exists>w2. lockMutex 7 (Some 1) world_locked = Ret 1 w2 \<and> handle_state w2 1 = LOCKED 7)"
proof -
  have l: "handle_state world_locked 1 = LOCKED 7"
    and u: "handle_state world_unlocked 1 = UNLOCKED"
    by (simp_all add: handle_state_def cell_at_def world_unlocked_def world_locked_def)
  have q: "quiet 1 (script world_locked)"
    by (simp add: quiet_def world_locked_def)
  have k: "lockMutex 7 (Some 1) world_unlocked = Ret 0 world_locked"
    by (simp add: eval_defs)
  have 1: "\<exists>w'. lockMutex 7 (Some 1) world_locked = Ret 1 w' \<and> handle_state w' 1 = LOCKED 7 \<and>
      heap w' = heap world_locked \<and> errno w' = EDEADLK"
    using lockMutex_relock_fails [where w = world_locked and m = 1 and t = 7, THEN conjunct1]
      l q by blast
  have 2: "\<exists>w2. lockMutex 7 (Some 1) world_locked = Ret 1 w2 \<and> handle_state w2 1 = LOCKED 7"
    using lockMutex_relock_fails
      [where w = world_unlocked and m = 1 and t = 7 and ?w1.0 = world_locked, THEN conjunct2]
      u k by blast
  show ?thesis
    by (intro conjI) (rule l q 1 u k 2)+
qed

text \<open>
  C6. When the handle is initialised and the calling thread does not hold it (it is
  unlocked, or locked by another thread), \<open>unlockMutex\<close> returns 1, prints one
  diagnostic with the error code that is also in \<open>errno\<close>, and leaves the heap, and
  so the state of the handle, unchanged. The code is \<open>EPERM\<close> when the operating
  system reports no error of its own.
\<close>

theorem unlockMutex_not_owner_fails:
  assumes "handle_state w m \<noteq> UNINITIALIZED" and "handle_state w m \<noteq> LOCKED t"
  shows "\<exists>w'. unlockMutex t (Some m) w = Ret 1 w' \<and> heap w' = heap w \<and>
           handle_state w' m = handle_state w m \<and> errno w' \<noteq> 0 \<and>
           (quiet 1 (script w) \<longrightarrow> errno w' = EPERM) \<and>
           new_reports w w' =
             [\<lparr>r_code = errno w', r_func = ''unlockMutex'',
               r_msg = Some ''Could not unlock mutex.'', r_errno = errno w'\<rparr>]"
proof -
  from handle_cell [OF assms(1)] obtain owner where
    c: "cell_at w m = Some (Mutex PTHREAD_MUTEX_ERRORCHECK owner)"
    and h: "handle_state w m = (case owner of None \<Rightarrow> UNLOCKED | Some t \<Rightarrow> LOCKED t)"
    by blast
  from h assms(2) have o: "owner \<noteq> Some t" by auto
  show ?thesis
    using o by (simp add: unlockMutex_Mutex [OF c] quiet_unfold new_reports_def)
qed

theorem unlockMutex_not_owner_fails_witness:
  "handle_state world_locked 1 \<noteq> UNINITIALIZED \<and> handle_state world_locked 1 \<noteq> LOCKED 8 \<and>
   quiet 1 (script world_locked) \<and>
   (\<exists>w'. unlockMutex 8 (Some 1) world_locked = Ret 1 w' \<and> heap w' = heap world_locked \<and>
      handle_state w' 1 = LOCKED 7 \<and> errno w' = EPERM)"
proof -
  have l: "handle_state world_locked 1 = LOCKED 7"
    by (simp add: handle_state_def cell_at_def world_locked_def)
  have a: "handle_state world_locked 1 \<noteq> UNINITIALIZED"
    and b: "handle_state world_locked 1 \<noteq> LOCKED 8"
    using l by simp_all
  have q: "quiet 1 (script world_locked)"
    by (simp add: quiet_def world_locked_def)
  have "\<exists>w'. unlockMutex 8 (Some 1) world_locked = Ret 1 w' \<and> heap w' = heap world_locked \<and>
      handle_state w' 1 = LOCKED 7 \<and> errno w' = EPERM"
    using unlockMutex_not_owner_fails [OF a b] q l by auto
  with a b q show ?thesis by blast
qed

text \<open>
  C7. On an unlocked handle, when the operating system reports no error of its own in
  the two calls, \<open>lockMutex\<close> followed by \<open>unlockMutex\<close> in the same thread both
  return 0; the handle is locked by the thread in between and unlocked afterwards,
  the heap is as before and nothing is reported.
\<close>

theorem lock_unlock_roundtrip:
  assumes "handle_state w m = UNLOCKED" and "quiet 2 (script w)"
  shows "\<exists>w1 w2. lockMutex t (Some m) w = Ret 0 w1 \<and> handle_state w1 m = LOCKED t \<and>
           unlockMutex t (Some m) w1 = Ret 0 w2 \<and> handle_state w2 m = UNLOCKED \<and>
           heap w2 = heap w \<and> reports w2 = reports w"
proof -
  from assms(1) have c: "cell_at w m = Some (Mutex PTHREAD_MUTEX_ERRORCHECK None)"
    by (simp add: handle_state_UNLOCKED)
  then have m: "m < length (heap w)" by (rule cell_at_live)
  from assms(2) have q: "reply 0 (script w) = 0" "reply (Suc 0) (script w) = 0"
    by (simp_all add: quiet_unfold)
  let ?w1 = "set_errno 0 (store m (Mutex PTHREAD_MUTEX_ERRORCHECK (Some t)) (consume w))"
  let ?w2 = "set_errno 0 (store m (Mutex PTHREAD_MUTEX_ERRORCHECK None) (consume ?w1))"
  have l: "lockMutex t (Some m) w = Ret 0 ?w1"
    using q by (simp add: lockMutex_Mutex [OF c] pending_reply)
  have c1: "cell_at ?w1 m = Some (Mutex PTHREAD_MUTEX_ERRORCHECK (Some t))"
    using m by simp
  have ul: "unlockMutex t (Some m) ?w1 = Ret 0 ?w2"
    using q by (simp add: unlockMutex_Mutex [OF c1] pending_reply)
  have h: "heap ?w2 = heap w"
    using store_same_cell [OF c] by simp
  have "handle_state ?w1 m = LOCKED t" "handle_state ?w2 m = UNLOCKED" "reports ?w2 = reports w"
    using m by simp_all
  with l ul h show ?thesis by blast
qed

theorem lock_unlock_roundtrip_witness:
  "handle_state world_unlocked 1 = UNLOCKED \<and> quiet 2 (script world_unlocked) \<and>
   (\<exists>w1 w2. lockMutex 7 (Some 1) world_unlocked = Ret 0 w1 \<and> handle_state w1 1 = LOCKED 7 \<and>
      unlockMutex 7 (Some 1) w1 = Ret 0 w2 \<and> handle_state w2 1 = UNLOCKED \<and>
      heap w2 = heap world_unlocked \<and> reports w2 = reports world_unlocked)"
proof -
  have u: "handle_state world_unlocked 1 = UNLOCKED"
    by (simp add: handle_state_def cell_at_def world_unlocked_def)
  have q: "quiet 2 (script world_unlocked)"
    by (simp add: quiet_def world_unlocked_def)
  from lock_unlock_roundtrip [OF u q, of 7] u q show ?thesis by simp
qed

text \<open>
  C8. Every operation that fails reports it and returns the failure value.
  \<open>createMutex\<close> always returns, and when it returns \<open>NULL\<close> at least one diagnostic
  has been printed. \<open>lockMutex\<close>, \<open>unlockMutex\<close> and \<open>destroyMutex\<close> with a null
  handle return 1 and print exactly one diagnostic. Whenever one of the three returns
  a value other than 0, the value is 1 and at least one diagnostic has been printed.
  On a live handle none of them has undefined behaviour, and \<open>unlockMutex\<close> and
  \<open>destroyMutex\<close> always return. No path of the source ends the process.
\<close>

theorem failures_are_reported:
  "(\<exists>p w1. createMutex w = Ret p w1) \<and>
   (createMutex w = Ret None w' \<longrightarrow> (\<exists>x xs. reports w' = reports w @ x # xs)) \<and>
   (\<exists>w1 x. lockMutex t None w = Ret 1 w1 \<and> reports w1 = reports w @ [x]) \<and>
   (\<exists>w1 x. unlockMutex t None w = Ret 1 w1 \<and> reports w1 = reports w @ [x]) \<and>
   (\<exists>w1 x. destroyMutex t None w = Ret 1 w1 \<and> reports w1 = reports w @ [x]) \<and>
   (lockMutex t h w = Ret r w' \<and> r \<noteq> 0 \<longrightarrow>
      r = 1 \<and> (\<exists>x xs. reports w' = reports w @ x # xs)) \<and>
   (unlockMutex t h w = Ret r w' \<and> r \<noteq> 0 \<longrightarrow>
      r = 1 \<and> (\<exists>x xs. reports w' = reports w @ x # xs)) \<and>
   (destroyMutex t h w = Ret r w' \<and> r \<noteq> 0 \<longrightarrow>
      r = 1 \<and> (\<exists>x xs. reports w' = reports w @ x # xs)) \<and>
   (handle_state w m \<noteq> UNINITIALIZED \<longrightarrow>
      lockMutex t (Some m) w \<noteq> UB \<and> (\<exists>r1 w1. unlockMutex t (Some m) w = Ret r1 w1) \<and>
      (\<exists>r1 w1. destroyMutex t (Some m) w = Ret r1 w1))"
proof (intro conjI impI)
  show "\<exists>p w1. createMutex w = Ret p w1" by (rule createMutex_total)
  show "\<exists>x xs. reports w' = reports w @ x # xs" if "createMutex w = Ret None w'"
    using that by (rule createMutex_None(2))
  show "\<exists>w1 x. lockMutex t None w = Ret 1 w1 \<and> reports w1 = reports w @ [x]"
    by (simp add: lockMutex_def)
  show "\<exists>w1 x. unlockMutex t None w = Ret 1 w1 \<and> reports w1 = reports w @ [x]"
    by (simp add: unlockMutex_def)
  show "\<exists>w1 x. destroyMutex t None w = Ret 1 w1 \<and> reports w1 = reports w @ [x]"
    by (simp add: destroyMutex_def)
  show "r = 1" "\<exists>x xs. reports w' = reports w @ x # xs"
    if "lockMutex t h w = Ret r w' \<and> r \<noteq> 0"
    using that lockMutex_failure by blast+
  show "r = 1" "\<exists>x xs. reports w' = reports w @ x # xs"
    if "unlockMutex t h w = Ret r w' \<and> r \<noteq> 0"
    using that unlockMutex_failure by blast+
  show "r = 1" "\<exists>x xs. reports w' = reports w @ x # xs"
    if "destroyMutex t h w = Ret r w' \<and> r \<noteq> 0"
    using that destroyMutex_failure by blast+
  show "lockMutex t (Some m) w \<noteq> UB" "\<exists>r1 w1. unlockMutex t (Some m) w = Ret r1 w1"
    "\<exists>r1 w1. destroyMutex t (Some m) w = Ret r1 w1"
    if "handle_state w m \<noteq> UNINITIALIZED"
    using that by (rule live_handle_no_crash)+
qed

theorem failures_are_reported_witness:
  "createMutex world_nomem = Ret None world_nomem_after \<and>
   (\<exists>x xs. reports world_nomem_after = reports world_nomem @ x # xs) \<and>
   handle_state world_locked 1 \<noteq> UNINITIALIZED \<and>
   (\<exists>w'. lockMutex 7 (Some 1) world_locked = Ret 1 w' \<and>
      (\<exists>x xs. reports w' = reports world_locked @ x # xs)) \<and>
   (\<exists>w'. unlockMutex 8 (Some 1) world_locked = Ret 1 w' \<and>
      (\<exists>x xs. reports w' = reports world_locked @ x # xs)) \<and>
   (\<exists>w'. destroyMutex 8 (Some 1) world_locked = Ret 1 w' \<and>
      (\<exists>x xs. reports w' = reports world_locked @ x # xs)) \<and>
   lockMutex 7 (Some 1) world_locked \<noteq> UB"
proof -
  have c: "createMutex world_nomem = Ret None world_nomem_after"
    by (simp add: eval_defs ENOMEM_def)
  have l: "handle_state world_locked 1 \<noteq> UNINITIALIZED"
    by (simp add: handle_state_def cell_at_def world_locked_def)
  obtain w1 where k: "lockMutex 7 (Some 1) world_locked = Ret 1 w1"
    by (simp add: eval_defs)
  obtain w2 where u: "unlockMutex 8 (Some 1) world_locked = Ret 1 w2"
    by (simp add: eval_defs)
  obtain w3 where d: "destroyMutex 8 (Some 1) world_locked = Ret 1 w3"
    by (simp add: eval_defs)
  have one: "(1::int) \<noteq> 0" by simp
  have 1: "\<exists>x xs. reports world_nomem_after = reports world_nomem @ x # xs"
    using failures_are_reported
      [where w = world_nomem and w' = world_nomem_after, THEN conjunct2, THEN conjunct1] c
    by blast
  have 2: "\<exists>x xs. reports w1 = reports world_locked @ x # xs"
    using failures_are_reported
      [where w = world_locked and w' = w1 and t = 7 and h = "Some 1" and r = 1,
        THEN conjunct2, THEN conjunct2, THEN conjunct2, THEN conjunct2, THEN conjunct2,
        THEN conjunct1] k one
    by blast
  have 3: "\<exists>x xs. reports w2 = reports world_locked @ x # xs"
    using failures_are_reported
      [where w = world_locked and w' = w2 and t = 8 and h = "Some 1" and r = 1,
        THEN conjunct2, THEN conjunct2, THEN conjunct2, THEN conjunct2, THEN conjunct2,
        THEN conjunct2, THEN conjunct1] u one
    by blast
  have 4: "\<exists>x xs. reports w3 = reports world_locked @ x # xs"
    using failures_are_reported
      [where w = world_locked and w' = w3 and t = 8 and h = "Some 1" and r = 1,
        THEN conjunct2, THEN conjunct2, THEN conjunct2, THEN conjunct2, THEN conjunct2,
        THEN conjunct2, THEN conjunct2, THEN conjunct1] d one
    by blast
  have 5: "lockMutex 7 (Some 1) world_locked \<noteq> UB"
    using failures_are_reported
      [where w = world_locked and m = 1 and t = 7,
        THEN conjunct2, THEN conjunct2, THEN conjunct2, THEN conjunct2, THEN conjunct2,
        THEN conjunct2, THEN conjunct2, THEN conjunct2] l
    by blast
  from c 1 l k 2 u 3 d 4 5 show ?thesis by blast
qed

text \<open>
  C9. Where a \<open>pthread_*\<close> primitive returns a nonzero code, the wrapper has stored
  that code in \<open>errno\<close> when it calls the reporter: the diagnostic carries the code,
  \<open>errno\<close> held the same code at the call of the reporter, and (in \<open>lockMutex\<close>,
  \<open>unlockMutex\<close>, \<open>destroyMutex\<close> and \<open>destroyMutexAttribute\<close>) \<open>errno\<close> still holds
  it on return. This is shown for \<open>pthread_mutex_lock\<close> in \<open>lockMutex\<close>, for
  \<open>pthread_mutex_unlock\<close> in \<open>unlockMutex\<close>, for the probe, its release and
  \<open>pthread_mutex_destroy\<close> in \<open>destroyMutex\<close>, and for \<open>pthread_mutexattr_destroy\<close> in
  \<open>destroyMutexAttribute\<close>. In \<open>createMutex\<close> the first diagnostic after the first
  failing call carries that call's code (\<open>ENOMEM\<close> for \<open>malloc\<close>) with \<open>errno\<close> equal
  to it, and every diagnostic carries either 0 or the value of \<open>errno\<close> at that
  moment. With a null handle \<open>lockMutex\<close>, \<open>unlockMutex\<close> and \<open>destroyMutex\<close>
  report code 0 and leave \<open>errno\<close> as it was.
\<close>

theorem errno_before_report:
  "(\<exists>w1. lockMutex t None w = Ret 1 w1 \<and> errno w1 = errno w \<and>
      new_reports w w1 =
        [\<lparr>r_code = 0, r_func = ''lockMutex'',
          r_msg = Some ''Could not lock mutex as it is null.'', r_errno = errno w\<rparr>]) \<and>
   (\<exists>w1. unlockMutex t None w = Ret 1 w1 \<and> errno w1 = errno w \<and>
      new_reports w w1 =
        [\<lparr>r_code = 0, r_func = ''unlockMutex'',
          r_msg = Some ''Could not unlock mutex as it is null.'', r_errno = errno w\<rparr>]) \<and>
   (\<exists>w1. destroyMutex t None w = Ret 1 w1 \<and> errno w1 = errno w \<and>
      new_reports w w1 =
        [\<lparr>r_code = 0, r_func = ''destroyMutex'',
          r_msg = Some ''Could not destroy mutex as it is null.'', r_errno = errno w\<rparr>]) \<and>
   (pthread_mutex_lock t m w = Ret rc v1 \<and> rc \<noteq> 0 \<longrightarrow>
      (\<exists>w'. lockMutex t (Some m) w = Ret 1 w' \<and> errno w' = rc \<and>
         new_reports w w' =
           [\<lparr>r_code = rc, r_func = ''lockMutex'', r_msg = Some ''Could not lock mutex.'',
             r_errno = rc\<rparr>])) \<and>
   (pthread_mutex_unlock t m w = Ret rc v1 \<and> rc \<noteq> 0 \<longrightarrow>
      (\<exists>w'. unlockMutex t (Some m) w = Ret 1 w' \<and> errno w' = rc \<and>
         new_reports w w' =
           [\<lparr>r_code = rc, r_func = ''unlockMutex'', r_msg = Some ''Could not unlock mutex.'',
             r_errno = rc\<rparr>])) \<and>
   (pthread_mutex_trylock t m w = Ret rc v1 \<and> rc \<noteq> 0 \<longrightarrow>
      (\<exists>w'. destroyMutex t (Some m) w = Ret 1 w' \<and> errno w' = rc \<and>
         new_reports w w' =
           [\<lparr>r_code = rc, r_func = ''destroyMutex'',
             r_msg = Some ''Could not destroy mutex as it is locked.'', r_errno = rc\<rparr>])) \<and>
   (pthread_mutex_trylock t m w = Ret 0 v1 \<and>
    pthread_mutex_unlock t m (set_errno 0 v1) = Ret rc v2 \<and> rc \<noteq> 0 \<longrightarrow>
      (\<exists>w'. destroyMutex t (Some m) w = Ret 1 w' \<and> errno w' = rc \<and>
         new_reports w w' =
           [\<lparr>r_code = rc, r_func = ''unlockMutex'', r_msg = Some ''Could not unlock mutex.'',
             r_errno = rc\<rparr>,
            \<lparr>r_code = 0, r_func = ''destroyMutex'', r_msg = None, r_errno = rc\<rparr>])) \<and>
   (pthread_mutex_trylock t m w = Ret 0 v1 \<and>
    pthread_mutex_unlock t m (set_errno 0 v1) = Ret 0 v2 \<and>
    pthread_mutex_destroy m (set_errno 0 v2) = Ret rc v3 \<and> rc \<noteq> 0 \<longrightarrow>
      (\<exists>w'. destroyMutex t (Some m) w = Ret 1 w' \<and> errno w' = rc \<and>
         new_reports w w' =
           [\<lparr>r_code = rc, r_func = ''destroyMutex'',
             r_msg = Some ''Could not destroy mutex.'', r_errno = rc\<rparr>])) \<and>
   (pthread_mutexattr_destroy m w = Ret rc v1 \<and> rc \<noteq> 0 \<longrightarrow>
      (\<exists>w'. destroyMutexAttribute (Some m) w = Ret 1 w' \<and> errno w' = rc \<and>
         new_reports w w' =
           [\<lparr>r_code = rc, r_func = ''destroyMutexAttribute'',
             r_msg = Some ''Could not destroy attribute.'', r_errno = rc\<rparr>])) \<and>
   (createMutex w = Ret p w' \<longrightarrow>
      (\<forall>r \<in> set (new_reports w w'). r_code r = 0 \<or> r_code r = r_errno r)) \<and>
   (createMutex w = Ret None w' \<longrightarrow>
      (\<exists>k<6. first_fault k (script w) \<and>
         (\<exists>f x rs. new_reports w w' =
            \<lparr>r_code = (if k = 0 \<or> k = 3 then ENOMEM else reply k (script w)), r_func = f,
              r_msg = x,
              r_errno = (if k = 0 \<or> k = 3 then ENOMEM else reply k (script w))\<rparr> # rs)))"
proof (intro conjI impI)
  show "\<exists>w1. lockMutex t None w = Ret 1 w1 \<and> errno w1 = errno w \<and>
      new_reports w w1 =
        [\<lparr>r_code = 0, r_func = ''lockMutex'',
          r_msg = Some ''Could not lock mutex as it is null.'', r_errno = errno w\<rparr>]"
    by (simp add: lockMutex_def)
  show "\<exists>w1. unlockMutex t None w = Ret 1 w1 \<and> errno w1 = errno w \<and>
      new_reports w w1 =
        [\<lparr>r_code = 0, r_func = ''unlockMutex'',
          r_msg = Some ''Could not unlock mutex as it is null.'', r_errno = errno w\<rparr>]"
    by (simp add: unlockMutex_def)
  show "\<exists>w1. destroyMutex t None w = Ret 1 w1 \<and> errno w1 = errno w \<and>
      new_reports w w1 =
        [\<lparr>r_code = 0, r_func = ''destroyMutex'',
          r_msg = Some ''Could not destroy mutex as it is null.'', r_errno = errno w\<rparr>]"
    by (simp add: destroyMutex_def)
next
  assume a: "pthread_mutex_lock t m w = Ret rc v1 \<and> rc \<noteq> 0"
  then have "reports v1 = reports w" using lock_frame by blast
  with a show "\<exists>w'. lockMutex t (Some m) w = Ret 1 w' \<and> errno w' = rc \<and>
         new_reports w w' =
           [\<lparr>r_code = rc, r_func = ''lockMutex'', r_msg = Some ''Could not lock mutex.'',
             r_errno = rc\<rparr>]"
    by (simp add: lockMutex_def Let_def)
next
  assume a: "pthread_mutex_unlock t m w = Ret rc v1 \<and> rc \<noteq> 0"
  then have "reports v1 = reports w" using unlock_frame by blast
  with a show "\<exists>w'. unlockMutex t (Some m) w = Ret 1 w' \<and> errno w' = rc \<and>
         new_reports w w' =
           [\<lparr>r_code = rc, r_func = ''unlockMutex'', r_msg = Some ''Could not unlock mutex.'',
             r_errno = rc\<rparr>]"
    by (simp add: unlockMutex_def Let_def)
next
  assume a: "pthread_mutex_trylock t m w = Ret rc v1 \<and> rc \<noteq> 0"
  then have "reports v1 = reports w" using trylock_frame by blast
  with a show "\<exists>w'. destroyMutex t (Some m) w = Ret 1 w' \<and> errno w' = rc \<and>
         new_reports w w' =
           [\<lparr>r_code = rc, r_func = ''destroyMutex'',
             r_msg = Some ''Could not destroy mutex as it is locked.'', r_errno = rc\<rparr>]"
    by (simp add: destroyMutex_def Let_def)
next
  assume a: "pthread_mutex_trylock t m w = Ret 0 v1 \<and>
    pthread_mutex_unlock t m (set_errno 0 v1) = Ret rc v2 \<and> rc \<noteq> 0"
  then have "reports v1 = reports w" using trylock_frame by blast
  moreover from a have "reports v2 = reports (set_errno 0 v1)" using unlock_frame by blast
  ultimately have "reports v2 = reports w" by simp
  with a show "\<exists>w'. destroyMutex t (Some m) w = Ret 1 w' \<and> errno w' = rc \<and>
         new_reports w w' =
           [\<lparr>r_code = rc, r_func = ''unlockMutex'', r_msg = Some ''Could not unlock mutex.'',
             r_errno = rc\<rparr>,
            \<lparr>r_code = 0, r_func = ''destroyMutex'', r_msg = None, r_errno = rc\<rparr>]"
    by (simp add: destroyMutex_def unlockMutex_def Let_def)
next
  assume a: "pthread_mutex_trylock t m w = Ret 0 v1 \<and>
    pthread_mutex_unlock t m (set_errno 0 v1) = Ret 0 v2 \<and>
    pthread_mutex_destroy m (set_errno 0 v2) = Ret rc v3 \<and> rc \<noteq> 0"
  then have "reports v1 = reports w" using trylock_frame by blast
  moreover from a have "reports v2 = reports (set_errno 0 v1)" using unlock_frame by blast
  moreover from a have "reports v3 = reports (set_errno 0 v2)" using destroy_frame by blast
  ultimately have "reports v3 = reports w" by simp
  with a show "\<exists>w'. destroyMutex t (Some m) w = Ret 1 w' \<and> errno w' = rc \<and>
         new_reports w w' =
           [\<lparr>r_code = rc, r_func = ''destroyMutex'',
             r_msg = Some ''Could not destroy mutex.'', r_errno = rc\<rparr>]"
    by (simp add: destroyMutex_def unlockMutex_def Let_def)
next
  assume a: "pthread_mutexattr_destroy m w = Ret rc v1 \<and> rc \<noteq> 0"
  then have "reports v1 = reports w" using attr_destroy_frame by blast
  with a show "\<exists>w'. destroyMutexAttribute (Some m) w = Ret 1 w' \<and> errno w' = rc \<and>
         new_reports w w' =
           [\<lparr>r_code = rc, r_func = ''destroyMutexAttribute'',
             r_msg = Some ''Could not destroy attribute.'', r_errno = rc\<rparr>]"
    by (simp add: destroyMutexAttribute_def Let_def)
next
  assume "createMutex w = Ret p w'"
  then show "\<forall>r \<in> set (new_reports w w'). r_code r = 0 \<or> r_code r = r_errno r"
    by (rule createMutex_report_codes)
next
  assume "createMutex w = Ret None w'"
  then show "\<exists>k<6. first_fault k (script w) \<and>
         (\<exists>f x rs. new_reports w w' =
            \<lparr>r_code = (if k = 0 \<or> k = 3 then ENOMEM else reply k (script w)), r_func = f,
              r_msg = x,
              r_errno = (if k = 0 \<or> k = 3 then ENOMEM else reply k (script w))\<rparr> # rs)"
    by (rule createMutex_None_first)
qed

theorem errno_before_report_witness:
  "(\<exists>w1. lockMutex 7 None world_locked = Ret 1 w1 \<and> errno w1 = errno world_locked) \<and>
   (\<exists>w'. lockMutex 7 (Some 1) world_locked = Ret 1 w' \<and> errno w' = EDEADLK \<and>
      new_reports world_locked w' =
        [\<lparr>r_code = EDEADLK, r_func = ''lockMutex'', r_msg = Some ''Could not lock mutex.'',
          r_errno = EDEADLK\<rparr>]) \<and>
   (\<exists>w'. unlockMutex 8 (Some 1) world_locked = Ret 1 w' \<and> errno w' = EPERM) \<and>
   (\<exists>w'. destroyMutex 8 (Some 1) world_locked = Ret 1 w' \<and> errno w' = EBUSY) \<and>
   (\<exists>w'. destroyMutex 7 (Some 1) (world_unlocked\<lparr>script := [0, 5]\<rparr>) = Ret 1 w' \<and> errno w' = 5 \<and>
      new_reports (world_unlocked\<lparr>script := [0, 5]\<rparr>) w' =
        [\<lparr>r_code = 5, r_func = ''unlockMutex'', r_msg = Some ''Could not unlock mutex.'',
          r_errno = 5\<rparr>,
         \<lparr>r_code = 0, r_func = ''destroyMutex'', r_msg = None, r_errno = 5\<rparr>]) \<and>
   (\<exists>w'. destroyMutex 7 (Some 1) world_destroy_fails = Ret 1 w' \<and> errno w' = 16) \<and>
   (\<exists>w'. destroyMutexAttribute (Some 0) \<lparr>heap = [Some (Attr PTHREAD_MUTEX_ERRORCHECK)], errno = 0, reports = [], script = [22]\<rparr> = Ret 1 w' \<and> errno w' = 22) \<and>
   createMutex world_nomem = Ret None world_nomem_after \<and>
   list_all (\<lambda>r. r_code r = 0 \<or> r_code r = r_errno r)
     (new_reports world_nomem world_nomem_after) \<and>
   (\<exists>k<6. first_fault k (script world_nomem) \<and>
      (\<exists>f x rs. new_reports world_nomem world_nomem_after =
         \<lparr>r_code = (if k = 0 \<or> k = 3 then ENOMEM else reply k (script world_nomem)),
           r_func = f, r_msg = x,
           r_errno = (if k = 0 \<or> k = 3 then ENOMEM else reply k (script world_nomem))\<rparr> # rs))"
proof -
  have nz: "(5::int) \<noteq> 0" "(16::int) \<noteq> 0" "(22::int) \<noteq> 0" by simp_all
  have 1: "\<exists>w1. lockMutex 7 None world_locked = Ret 1 w1 \<and> errno w1 = errno world_locked"
    using errno_before_report [where t = 7 and w = world_locked, THEN conjunct1] by blast
  obtain v1 where l: "pthread_mutex_lock 7 1 world_locked = Ret EDEADLK v1"
    by (simp add: eval_defs)
  have 2: "\<exists>w'. lockMutex 7 (Some 1) world_locked = Ret 1 w' \<and> errno w' = EDEADLK \<and>
      new_reports world_locked w' =
        [\<lparr>r_code = EDEADLK, r_func = ''lockMutex'', r_msg = Some ''Could not lock mutex.'',
          r_errno = EDEADLK\<rparr>]"
    using errno_before_report
      [where t = 7 and m = 1 and w = world_locked and rc = EDEADLK and ?v1.0 = v1, THEN conjunct2, THEN conjunct2, THEN conjunct2, THEN conjunct1]
      l EBUSY_nz(2)
    by blast
  obtain v2 where u: "pthread_mutex_unlock 8 1 world_locked = Ret EPERM v2"
    by (simp add: eval_defs)
  have 3: "\<exists>w'. unlockMutex 8 (Some 1) world_locked = Ret 1 w' \<and> errno w' = EPERM"
    using errno_before_report
      [where t = 8 and m = 1 and w = world_locked and rc = EPERM and ?v1.0 = v2, THEN conjunct2, THEN conjunct2, THEN conjunct2, THEN conjunct2, THEN conjunct1]
      u EBUSY_nz(3)
    by blast
  obtain v3 where y: "pthread_mutex_trylock 8 1 world_locked = Ret EBUSY v3"
    by (simp add: eval_defs)
  have 4: "\<exists>w'. destroyMutex 8 (Some 1) world_locked = Ret 1 w' \<and> errno w' = EBUSY"
    using errno_before_report
      [where t = 8 and m = 1 and w = world_locked and rc = EBUSY and ?v1.0 = v3, THEN conjunct2, THEN conjunct2, THEN conjunct2, THEN conjunct2, THEN conjunct2, THEN conjunct1]
      y EBUSY_nz(1)
    by blast
  let ?a1 = "store 1 (Mutex PTHREAD_MUTEX_ERRORCHECK (Some 7)) (consume (world_unlocked\<lparr>script := [0, 5]\<rparr>))"
  have r1: "pthread_mutex_trylock 7 1 (world_unlocked\<lparr>script := [0, 5]\<rparr>) = Ret 0 ?a1"
    by (simp add: eval_defs)
  obtain a2 where r2: "pthread_mutex_unlock 7 1 (set_errno 0 ?a1) = Ret 5 a2"
    by (simp add: eval_defs)
  have 5: "\<exists>w'. destroyMutex 7 (Some 1) (world_unlocked\<lparr>script := [0, 5]\<rparr>) = Ret 1 w' \<and> errno w' = 5 \<and>
      new_reports (world_unlocked\<lparr>script := [0, 5]\<rparr>) w' =
        [\<lparr>r_code = 5, r_func = ''unlockMutex'', r_msg = Some ''Could not unlock mutex.'',
          r_errno = 5\<rparr>,
         \<lparr>r_code = 0, r_func = ''destroyMutex'', r_msg = None, r_errno = 5\<rparr>]"
    using errno_before_report
      [where t = 7 and m = 1 and w = "(world_unlocked\<lparr>script := [0, 5]\<rparr>)" and rc = 5 and ?v1.0 = ?a1 and ?v2.0 = a2, THEN conjunct2, THEN conjunct2, THEN conjunct2, THEN conjunct2, THEN conjunct2, THEN conjunct2, THEN conjunct1]
      r1 r2 nz(1)
    by blast
  let ?b1 = "store 1 (Mutex PTHREAD_MUTEX_ERRORCHECK (Some 7)) (consume world_destroy_fails)"
  let ?b2 = "store 1 (Mutex PTHREAD_MUTEX_ERRORCHECK None) (consume (set_errno 0 ?b1))"
  have d1: "pthread_mutex_trylock 7 1 world_destroy_fails = Ret 0 ?b1"
    by (simp add: eval_defs)
  have d2: "pthread_mutex_unlock 7 1 (set_errno 0 ?b1) = Ret 0 ?b2"
    by (simp add: eval_defs)
  obtain b3 where d3: "pthread_mutex_destroy 1 (set_errno 0 ?b2) = Ret 16 b3"
    by (simp add: eval_defs)
  have 6: "\<exists>w'. destroyMutex 7 (Some 1) world_destroy_fails = Ret 1 w' \<and> errno w' = 16"
    using errno_before_report
      [where t = 7 and m = 1 and w = world_destroy_fails and rc = 16 and ?v1.0 = ?b1
        and ?v2.0 = ?b2 and ?v3.0 = b3, THEN conjunct2, THEN conjunct2, THEN conjunct2, THEN conjunct2, THEN conjunct2, THEN conjunct2, THEN conjunct2, THEN conjunct1]
      d1 d2 d3 nz(2)
    by blast
  obtain c1 where e: "pthread_mutexattr_destroy 0 \<lparr>heap = [Some (Attr PTHREAD_MUTEX_ERRORCHECK)], errno = 0, reports = [], script = [22]\<rparr> = Ret 22 c1"
    by (simp add: eval_defs)
  have 7: "\<exists>w'. destroyMutexAttribute (Some 0) \<lparr>heap = [Some (Attr PTHREAD_MUTEX_ERRORCHECK)], errno = 0, reports = [], script = [22]\<rparr> = Ret 1 w' \<and> errno w' = 22"
    using errno_before_report
      [where m = 0 and w = "\<lparr>heap = [Some (Attr PTHREAD_MUTEX_ERRORCHECK)], errno = 0, reports = [], script = [22]\<rparr>" and rc = 22 and ?v1.0 = c1, THEN conjunct2, THEN conjunct2, THEN conjunct2, THEN conjunct2, THEN conjunct2, THEN conjunct2, THEN conjunct2, THEN conjunct2, THEN conjunct1]
      e nz(3)
    by blast
  have c: "createMutex world_nomem = Ret None world_nomem_after"
    by (simp add: eval_defs ENOMEM_def)
  have 8: "list_all (\<lambda>r. r_code r = 0 \<or> r_code r = r_errno r)
             (new_reports world_nomem world_nomem_after)"
    unfolding list_all_iff
    using errno_before_report
      [where w = world_nomem and w' = world_nomem_after and p = None, THEN conjunct2, THEN conjunct2, THEN conjunct2, THEN conjunct2, THEN conjunct2, THEN conjunct2, THEN conjunct2, THEN conjunct2, THEN conjunct2, THEN conjunct1] c
    by blast
  have 9: "\<exists>k<6. first_fault k (script world_nomem) \<and>
      (\<exists>f x rs. new_reports world_nomem world_nomem_after =
         \<lparr>r_code = (if k = 0 \<or> k = 3 then ENOMEM else reply k (script world_nomem)),
           r_func = f, r_msg = x,
           r_errno = (if k = 0 \<or> k = 3 then ENOMEM else reply k (script world_nomem))\<rparr> # rs)"
    using errno_before_report
      [where w = world_nomem and w' = world_nomem_after, THEN conjunct2, THEN conjunct2, THEN conjunct2, THEN conjunct2, THEN conjunct2, THEN conjunct2, THEN conjunct2, THEN conjunct2, THEN conjunct2, THEN conjunct2] c
    by blast
  show ?thesis
    by (intro conjI) (rule 1 2 3 4 5 6 7 c 8 9)+
qed

text \<open>
  C10. When \<open>destroyMutex\<close> returns failure the block of the handle has not been
  freed and the mutex has not been destroyed: the handle is still an initialised
  lock handle, the same blocks are live as before and every other block is
  unchanged. The block is freed exactly when \<open>destroyMutex\<close> returns 0, and it
  returns 0 exactly when the handle was unlocked and the probe, its release and
  \<open>pthread_mutex_destroy\<close> all succeed. With a null handle nothing changes in the
  heap either.
\<close>

theorem destroyMutex_failure_keeps_handle:
  "(destroyMutex t (Some m) w = Ret r w' \<and> handle_state w m \<noteq> UNINITIALIZED \<longrightarrow>
      (r = 0 \<or> r = 1) \<and>
      (r = 0 \<longleftrightarrow> handle_state w m = UNLOCKED \<and> quiet 3 (script w)) \<and>
      (cell_at w' m = None \<longleftrightarrow> r = 0) \<and>
      (r = 1 \<longrightarrow> handle_state w' m \<noteq> UNINITIALIZED \<and>
         (\<forall>a. (cell_at w' a = None) = (cell_at w a = None)) \<and>
         (\<forall>a. a \<noteq> m \<longrightarrow> cell_at w' a = cell_at w a))) \<and>
   (destroyMutex t None w = Ret r w' \<longrightarrow> r = 1 \<and> heap w' = heap w)"
proof (intro conjI impI)
  show "r = 1" "heap w' = heap w" if "destroyMutex t None w = Ret r w'"
    using that by (auto simp: destroyMutex_def)
next
  assume a: "destroyMutex t (Some m) w = Ret r w' \<and> handle_state w m \<noteq> UNINITIALIZED"
  then have d: "destroyMutex t (Some m) w = Ret r w'" by simp
  from a handle_cell obtain owner where
    c: "cell_at w m = Some (Mutex PTHREAD_MUTEX_ERRORCHECK owner)"
    and h: "handle_state w m = (case owner of None \<Rightarrow> UNLOCKED | Some t \<Rightarrow> LOCKED t)"
    by blast
  note R = destroyMutex_result [OF d c]
  show "r = 0 \<or> r = 1" by (rule R(1))
  show "r = 0 \<longleftrightarrow> handle_state w m = UNLOCKED \<and> quiet 3 (script w)"
    using R(2) h by (cases owner) auto
  show "cell_at w' m = None \<longleftrightarrow> r = 0" by (rule R(3))
  {
    assume r: "r = 1"
    from R(4) [OF r] obtain owner' where
      c': "cell_at w' m = Some (Mutex PTHREAD_MUTEX_ERRORCHECK owner')" by blast
    then show "handle_state w' m \<noteq> UNINITIALIZED"
      by (simp add: handle_state_UNINITIALIZED)
    show "\<forall>a. a \<noteq> m \<longrightarrow> cell_at w' a = cell_at w a"
      using R(5) [OF r] by blast
    show "\<forall>a. (cell_at w' a = None) = (cell_at w a = None)"
    proof
      fix a show "(cell_at w' a = None) = (cell_at w a = None)"
        using R(5) [OF r, of a] c c' by (cases "a = m") simp_all
    qed
  }
qed

theorem destroyMutex_failure_keeps_handle_witness:
  "handle_state world_destroy_fails 1 \<noteq> UNINITIALIZED \<and>
   (\<exists>w'. destroyMutex 7 (Some 1) world_destroy_fails = Ret 1 w' \<and>
      handle_state w' 1 \<noteq> UNINITIALIZED \<and> cell_at w' 1 \<noteq> None \<and>
      (\<forall>a. (cell_at w' a = None) = (cell_at world_destroy_fails a = None))) \<and>
   (\<exists>w'. destroyMutex 7 None world_destroy_fails = Ret 1 w' \<and>
      heap w' = heap world_destroy_fails)"
proof -
  have u: "handle_state world_destroy_fails 1 \<noteq> UNINITIALIZED"
    by (simp add: handle_state_def cell_at_def world_destroy_fails_def)
  obtain w' where d: "destroyMutex 7 (Some 1) world_destroy_fails = Ret 1 w'"
    by (simp add: eval_defs)
  obtain w'' where n: "destroyMutex 7 None world_destroy_fails = Ret 1 w''"
    by (simp add: destroyMutex_def)
  have 1: "handle_state w' 1 \<noteq> UNINITIALIZED \<and> cell_at w' 1 \<noteq> None \<and>
      (\<forall>a. (cell_at w' a = None) = (cell_at world_destroy_fails a = None))"
    using destroyMutex_failure_keeps_handle
      [where t = 7 and m = 1 and w = world_destroy_fails and r = 1 and w' = w',
        THEN conjunct1] d u
    by (simp add: cell_at_def world_destroy_fails_def)
  have 2: "heap w'' = heap world_destroy_fails"
    using destroyMutex_failure_keeps_handle
      [where t = 7 and w = world_destroy_fails and r = 1 and w' = w'', THEN conjunct2] n
    by simp
  from u d n 1 2 show ?thesis by blast
qed

end
